theory Spec2Isabelle
  imports Complex_Main "HOL-Library.Multiset"
begin

section \<open>Shared types\<close>

text \<open>
  A value of the TypeScript type \<^verbatim>\<open>number\<close> is a double. A finite double is a real
  number, and it is modelled by \<^typ>\<open>real\<close>; \<^verbatim>\<open>NaN\<close> and the infinities are left out.
  Comparisons of doubles are exact. An arithmetic operation of the detection module
  returns the exact result rounded to a double: the rounding is the parameter \<open>rnd\<close> of
  every function of that module that computes, \<^verbatim>\<open>x * y\<close> is \<open>rnd (x * y)\<close>, and a literal
  with a fraction, such as \<^verbatim>\<open>3.281\<close>, is \<open>rnd 3.281\<close>, the double it denotes. Integer
  literals are doubles as they stand. Nothing is assumed of \<open>rnd\<close> except where a theorem
  says so, and the identity gives exact arithmetic.
  \<^verbatim>\<open>T | null\<close> is \<^typ>\<open>'a option\<close>. Strings are lists of 8-bit code units.
\<close>

text \<open>
  What the theorems below that need it assume of the rounding: it is monotone, and it
  leaves the integers up to \<open>2 ^ 53\<close> as they are. Rounding to the nearest double does
  both.
\<close>

definition rounds_like_double :: "(real \<Rightarrow> real) \<Rightarrow> bool" where
  "rounds_like_double rnd =
    ((\<forall>x y. x \<le> y \<longrightarrow> rnd x \<le> rnd y)
     \<and> (\<forall>k :: int. \<bar>k\<bar> \<le> 2 ^ 53 \<longrightarrow> rnd (of_int k) = of_int k))"

text \<open>\<^verbatim>\<open>interface Aircraft\<close> of the shared type definitions:\<close>

record aircraft =
  icao24 :: string
  callsign :: "string option"
  origin_country :: string
  longitude :: "real option"
  latitude :: "real option"
  baro_altitude :: "real option"
  geo_altitude :: "real option"
  velocity :: "real option"
  true_track :: "real option"
  vertical_rate :: "real option"
  on_ground :: bool
  squawk :: "string option"
  spi :: bool
  position_source :: real
  last_contact :: real
  time_position :: "real option"
  category :: "real option"

datatype AnomalyType =
  altitude_drop | holding_pattern | emergency_squawk | route_deviation
  | rapid_descent | unusual_speed | go_around | diversion

datatype Severity = low | medium | high | critical

text \<open>
  \<^verbatim>\<open>interface FlightAnomaly\<close>. The fields \<^verbatim>\<open>id\<close> (clock reading and random
  suffix), \<^verbatim>\<open>detected_at\<close> (clock reading) and \<^verbatim>\<open>details\<close> (formatted text and the
  metrics shown with it) are presentation data that no detector reads back; they are not
  part of the model. Building them cannot throw.
\<close>

record flight_anomaly =
  flight_icao24 :: string
  a_callsign :: "string option"
  a_type :: AnomalyType
  a_severity :: Severity
  location_latitude :: real
  location_longitude :: real

section \<open>History store\<close>

definition HISTORY_MAX_SIZE :: nat where
  "HISTORY_MAX_SIZE = 100"

definition HISTORY_RETENTION_MS :: real where
  "HISTORY_RETENTION_MS = 30 * 60 * 1000"

type_synonym history_map = "string \<rightharpoonup> aircraft list"

text \<open>\<^verbatim>\<open>aircraftHistory.get(icao24) || []\<close>: an array is always truthy.\<close>

definition getHistory :: "history_map \<Rightarrow> string \<Rightarrow> aircraft list" where
  "getHistory m k = (case m k of None \<Rightarrow> [] | Some h \<Rightarrow> h)"

text \<open>
  \<^verbatim>\<open>addToHistory\<close> reads the clock twice: \<open>now1\<close> is the reading stamped on the pushed
  entry, \<open>now2\<close> the reading the cutoff is computed from (both in milliseconds).
  \<^verbatim>\<open>splice(0, n - HISTORY_MAX_SIZE)\<close> removes the oldest entries.
\<close>

definition addToHistory ::
  "(real \<Rightarrow> real) \<Rightarrow> real \<Rightarrow> real \<Rightarrow> aircraft \<Rightarrow> history_map \<Rightarrow> history_map" where
  "addToHistory rnd now1 now2 a m =
    (let history = getHistory m (icao24 a) @ [a\<lparr>last_contact := rnd (now1 / 1000)\<rparr>];
         cutoffTime = rnd (rnd (now2 / 1000) - rnd (HISTORY_RETENTION_MS / 1000));
         filtered = filter (\<lambda>x. last_contact x > cutoffTime) history;
         kept = (if length filtered > HISTORY_MAX_SIZE
                 then drop (length filtered - HISTORY_MAX_SIZE) filtered
                 else filtered)
     in m(icao24 a \<mapsto> kept))"

section \<open>Detectors\<close>

definition RAPID_ALTITUDE_DROP_FT_PER_MIN :: real where
  "RAPID_ALTITUDE_DROP_FT_PER_MIN = - 3000"

definition UNUSUALLY_SLOW_KTS :: real where
  "UNUSUALLY_SLOW_KTS = 80"

definition UNUSUALLY_FAST_KTS :: real where
  "UNUSUALLY_FAST_KTS = 600"

definition HOLDING_PATTERN_TURNS :: real where
  "HOLDING_PATTERN_TURNS = 2"

definition CRITICAL_VERTICAL_RATE_FPM :: real where
  "CRITICAL_VERTICAL_RATE_FPM = - 4000"

text \<open>\<^verbatim>\<open>x || 0\<close> on a nullable number: \<^verbatim>\<open>null\<close> and \<open>0\<close> both give \<open>0\<close>.\<close>

definition or_zero :: "real option \<Rightarrow> real" where
  "or_zero x = (case x of None \<Rightarrow> 0 | Some v \<Rightarrow> v)"

text \<open>The object literal every detector returns, with its type and severity.\<close>

definition anomaly_of :: "aircraft \<Rightarrow> AnomalyType \<Rightarrow> Severity \<Rightarrow> flight_anomaly" where
  "anomaly_of a ty sev =
    \<lparr>flight_icao24 = icao24 a, a_callsign = callsign a, a_type = ty, a_severity = sev,
     location_latitude = or_zero (latitude a), location_longitude = or_zero (longitude a)\<rparr>"

subsection \<open>Emergency squawk\<close>

text \<open>
  \<^verbatim>\<open>EMERGENCY_SQUAWKS\<close> is an object literal, and \<^verbatim>\<open>EMERGENCY_SQUAWKS[aircraft.squawk]\<close>
  is a property read: where the object has no own property of that name, the read goes on
  to the object's prototype, \<^verbatim>\<open>Object.prototype\<close>, whose properties (functions, and the
  prototype object itself under \<^verbatim>\<open>__proto__\<close>) are all truthy.
\<close>

definition EMERGENCY_SQUAWKS :: "(string \<times> string) list" where
  "EMERGENCY_SQUAWKS =
    [(''7500'', ''Hijacking''), (''7600'', ''Radio Failure''), (''7700'', ''General Emergency'')]"

definition Object_prototype :: "string list" where
  "Object_prototype =
    [''constructor'', ''hasOwnProperty'', ''isPrototypeOf'', ''propertyIsEnumerable'',
     ''toLocaleString'', ''toString'', ''valueOf'', ''__proto__'',
     ''__defineGetter__'', ''__defineSetter__'', ''__lookupGetter__'', ''__lookupSetter__'']"

datatype property = Own string | Inherited

definition property_read :: "(string \<times> string) list \<Rightarrow> string \<Rightarrow> property option" where
  "property_read obj k =
    (case map_of obj k of
       Some v \<Rightarrow> Some (Own v)
     | None \<Rightarrow> if k \<in> set Object_prototype then Some Inherited else None)"

fun property_truthy :: "property option \<Rightarrow> bool" where
  "property_truthy None = False"
| "property_truthy (Some (Own v)) = (v \<noteq> [])"
| "property_truthy (Some Inherited) = True"

definition detectEmergencySquawk :: "aircraft \<Rightarrow> flight_anomaly option" where
  "detectEmergencySquawk a =
    (case squawk a of
       None \<Rightarrow> None
     | Some sq \<Rightarrow>
         if sq = [] then None
         else if property_truthy (property_read EMERGENCY_SQUAWKS sq)
           then Some (anomaly_of a emergency_squawk critical)
           else None)"

subsection \<open>Rapid descent and altitude drop\<close>

definition detectAltitudeAnomaly ::
  "(real \<Rightarrow> real) \<Rightarrow> history_map \<Rightarrow> aircraft \<Rightarrow> flight_anomaly option" where
  "detectAltitudeAnomaly rnd m a =
    (case vertical_rate a of
       None \<Rightarrow> None
     | Some vr \<Rightarrow>
         if on_ground a then None
         else
           let verticalRateFpm = rnd (vr * rnd 196.85) in
           if verticalRateFpm < CRITICAL_VERTICAL_RATE_FPM
           then Some (anomaly_of a rapid_descent high)
           else
             let history = getHistory m (icao24 a) in
             (case baro_altitude a of
                None \<Rightarrow> None
              | Some alt \<Rightarrow>
                  if length history \<ge> 2 then
                    (let previousState = history ! (length history - 2) in
                     case baro_altitude previousState of
                       None \<Rightarrow> None
                     | Some prev_alt \<Rightarrow>
                         let altitudeChange = rnd (rnd (alt - prev_alt) * rnd 3.281);
                             timeChange =
                               rnd (rnd (last_contact a - last_contact previousState) / 60)
                         in
                           if timeChange > 0 then
                             (let rateOfChange = rnd (altitudeChange / timeChange) in
                              if rateOfChange < RAPID_ALTITUDE_DROP_FT_PER_MIN
                              then Some (anomaly_of a altitude_drop high)
                              else None)
                           else None)
                  else None))"

subsection \<open>Holding pattern\<close>

text \<open>The body of the loop: the heading change of one step, after the two adjustments.\<close>

definition headingChange :: "(real \<Rightarrow> real) \<Rightarrow> real \<Rightarrow> real \<Rightarrow> real" where
  "headingChange rnd lastHeading currentHeading =
    (let h0 = rnd (currentHeading - lastHeading);
         h1 = (if h0 > 180 then rnd (h0 - 360) else h0);
         h2 = (if h1 < - 180 then rnd (h1 + 360) else h1)
     in h2)"

text \<open>
  The loop over \<^verbatim>\<open>recentHistory[1..]\<close>, carrying \<^verbatim>\<open>lastHeading\<close>, \<^verbatim>\<open>turnCount\<close> and
  \<^verbatim>\<open>totalHeadingChange\<close> (here \<open>acc\<close>).
\<close>

fun holding_loop ::
  "(real \<Rightarrow> real) \<Rightarrow> aircraft list \<Rightarrow> real option \<Rightarrow> nat \<Rightarrow> real
    \<Rightarrow> real option \<times> nat \<times> real" where
  "holding_loop rnd [] lastHeading turnCount acc = (lastHeading, turnCount, acc)"
| "holding_loop rnd (x # xs) lastHeading turnCount acc =
    (case (lastHeading, true_track x) of
       (Some l, Some c) \<Rightarrow>
         (let hc = headingChange rnd l c in
          holding_loop rnd xs (true_track x)
            (if \<bar>hc\<bar> > 30 then turnCount + 1 else turnCount) (rnd (acc + hc)))
     | _ \<Rightarrow> holding_loop rnd xs (true_track x) turnCount acc)"

text \<open>
  The heading deltas of a window in the words of the claim, for comparison with the loop:
  one delta for each pair of consecutive samples that both have a heading, normalised as
  the body of the loop normalises it.
\<close>

fun heading_deltas :: "(real \<Rightarrow> real) \<Rightarrow> real option list \<Rightarrow> real list" where
  "heading_deltas rnd (Some l # Some c # hs) =
    headingChange rnd l c # heading_deltas rnd (Some c # hs)"
| "heading_deltas rnd (h # h' # hs) = heading_deltas rnd (h' # hs)"
| "heading_deltas rnd _ = []"

definition detectHoldingPattern ::
  "(real \<Rightarrow> real) \<Rightarrow> history_map \<Rightarrow> aircraft \<Rightarrow> flight_anomaly option" where
  "detectHoldingPattern rnd m a =
    (let history = getHistory m (icao24 a) in
     if length history < 20 then None
     else if on_ground a then None
     else
       let recentHistory = drop (length history - 30) history;
           (lastHeading, turnCount, totalHeadingChange) =
              holding_loop rnd (tl recentHistory) (true_track (hd recentHistory)) 0 0;
           fullCircles = rnd (\<bar>totalHeadingChange\<bar> / 360)
       in if fullCircles \<ge> HOLDING_PATTERN_TURNS
          then Some (anomaly_of a holding_pattern medium)
          else None)"

subsection \<open>Unusual speed\<close>

definition detectSpeedAnomaly :: "(real \<Rightarrow> real) \<Rightarrow> aircraft \<Rightarrow> flight_anomaly option" where
  "detectSpeedAnomaly rnd a =
    (case velocity a of
       None \<Rightarrow> None
     | Some v \<Rightarrow>
         if on_ground a then None
         else
           let speedKts = rnd (v * rnd 1.944) in
           if speedKts > UNUSUALLY_FAST_KTS then Some (anomaly_of a unusual_speed medium)
           else if speedKts < UNUSUALLY_SLOW_KTS
                   \<and> (case baro_altitude a of None \<Rightarrow> False | Some alt \<Rightarrow> alt \<noteq> 0 \<and> alt > 3000)
           then Some (anomaly_of a unusual_speed low)
           else None)"

subsection \<open>Go-around\<close>

text \<open>
  The loop over consecutive pairs of the recent window, carrying \<^verbatim>\<open>wasDescending\<close>,
  \<^verbatim>\<open>reachedLowAltitude\<close> and \<^verbatim>\<open>isNowClimbing\<close> (\<^verbatim>\<open>lowestAltitude\<close> is only reported).
\<close>

fun go_around_loop ::
  "(real \<Rightarrow> real) \<Rightarrow> aircraft list \<Rightarrow> bool \<times> bool \<times> bool \<Rightarrow> bool \<times> bool \<times> bool" where
  "go_around_loop rnd (prevState # currState # others)
      (wasDescending, reachedLowAltitude, isNowClimbing) =
    (case (baro_altitude prevState, baro_altitude currState) of
       (Some p, Some c) \<Rightarrow>
         (let altFt = rnd (c * rnd 3.281);
              wasDescending' = (wasDescending \<or> c < p);
              reachedLowAltitude' = (reachedLowAltitude \<or> (altFt < 1500 \<and> wasDescending'));
              isNowClimbing' = (isNowClimbing \<or> (c > p \<and> reachedLowAltitude'))
          in go_around_loop rnd (currState # others)
               (wasDescending', reachedLowAltitude', isNowClimbing'))
     | _ \<Rightarrow> go_around_loop rnd (currState # others)
               (wasDescending, reachedLowAltitude, isNowClimbing))"
| "go_around_loop rnd _ flags = flags"

definition detectGoAround ::
  "(real \<Rightarrow> real) \<Rightarrow> history_map \<Rightarrow> aircraft \<Rightarrow> flight_anomaly option" where
  "detectGoAround rnd m a =
    (let history = getHistory m (icao24 a) in
     if length history < 10 then None
     else
       let recent = drop (length history - 15) history;
           (wasDescending, reachedLowAltitude, isNowClimbing) =
              go_around_loop rnd recent (False, False, False)
       in if wasDescending \<and> reachedLowAltitude \<and> isNowClimbing
             \<and> (case vertical_rate a of None \<Rightarrow> False | Some vr \<Rightarrow> vr \<noteq> 0 \<and> vr > 2)
          then Some (anomaly_of a go_around medium)
          else None)"

section \<open>Orchestration\<close>

text \<open>
  The state of the detection module is the history map. The wall clock is a sequence of
  readings \<open>clk\<close> (milliseconds), of which \<open>ticks\<close> says how many \<^verbatim>\<open>addToHistory\<close> has
  consumed; nothing is assumed about the readings.
\<close>

record det_state =
  aircraftHistory :: history_map
  ticks :: nat

text \<open>
  The detectors in pipeline order, each applied to the history map after the insert.
  No detector can throw on a value of type \<^typ>\<open>aircraft\<close>, so the \<^verbatim>\<open>catch\<close> of the loop
  has no branch here.
\<close>

definition detectors ::
  "(real \<Rightarrow> real) \<Rightarrow> (history_map \<Rightarrow> aircraft \<Rightarrow> flight_anomaly option) list" where
  "detectors rnd =
    [\<lambda>m. detectEmergencySquawk, detectAltitudeAnomaly rnd, detectHoldingPattern rnd,
     \<lambda>m. detectSpeedAnomaly rnd, detectGoAround rnd]"

definition detectAnomalies ::
  "(real \<Rightarrow> real) \<Rightarrow> (nat \<Rightarrow> real) \<Rightarrow> aircraft \<Rightarrow> det_state
    \<Rightarrow> flight_anomaly list \<times> det_state" where
  "detectAnomalies rnd clk a s =
    (if latitude a = None \<or> longitude a = None then ([], s)
     else
       let m = addToHistory rnd (clk (ticks s)) (clk (ticks s + 1)) a (aircraftHistory s);
           s' = \<lparr>aircraftHistory = m, ticks = ticks s + 2\<rparr>
       in (List.map_filter (\<lambda>detector. detector m a) (detectors rnd), s'))"

text \<open>The loop of \<^verbatim>\<open>detectAnomaliesBatch\<close>: anomalies are appended aircraft by aircraft.\<close>

fun detect_each ::
  "(real \<Rightarrow> real) \<Rightarrow> (nat \<Rightarrow> real) \<Rightarrow> aircraft list \<Rightarrow> det_state
    \<Rightarrow> flight_anomaly list \<times> det_state" where
  "detect_each rnd clk [] s = ([], s)"
| "detect_each rnd clk (ac # acs) s =
    (let (anomalies, s1) = detectAnomalies rnd clk ac s;
         (later, s2) = detect_each rnd clk acs s1
     in (anomalies @ later, s2))"

definition severityOrder :: "Severity \<Rightarrow> int" where
  "severityOrder sev = (case sev of critical \<Rightarrow> 0 | high \<Rightarrow> 1 | medium \<Rightarrow> 2 | low \<Rightarrow> 3)"

text \<open>
  \<^verbatim>\<open>Array.prototype.sort\<close> with a comparator is a stable sort (ECMAScript 2019); the
  engine's algorithm is not part of the repository, and a stable insertion sort driven by
  the sign of the comparator stands for it.
\<close>

fun insert_by :: "('a \<Rightarrow> 'a \<Rightarrow> int) \<Rightarrow> 'a \<Rightarrow> 'a list \<Rightarrow> 'a list" where
  "insert_by cmp x [] = [x]"
| "insert_by cmp x (y # ys) =
    (if cmp x y \<le> 0 then x # y # ys else y # insert_by cmp x ys)"

definition array_sort :: "('a \<Rightarrow> 'a \<Rightarrow> int) \<Rightarrow> 'a list \<Rightarrow> 'a list" where
  "array_sort cmp xs = foldr (insert_by cmp) xs []"

definition detectAnomaliesBatch ::
  "(real \<Rightarrow> real) \<Rightarrow> (nat \<Rightarrow> real) \<Rightarrow> aircraft list \<Rightarrow> det_state
    \<Rightarrow> flight_anomaly list \<times> det_state" where
  "detectAnomaliesBatch rnd clk acs s =
    (let (allAnomalies, s') = detect_each rnd clk acs s
     in (array_sort (\<lambda>a b. severityOrder (a_severity a) - severityOrder (a_severity b))
           allAnomalies, s'))"

subsection \<open>Replaying a track\<close>

record flight_path_point =
  p_time :: real
  p_latitude :: "real option"
  p_longitude :: "real option"
  p_baro_altitude :: "real option"
  p_true_track :: "real option"
  p_on_ground :: bool

record flight_track =
  t_icao24 :: string
  t_callsign :: string
  startTime :: real
  endTime :: real
  path :: "flight_path_point list"

definition pseudoAircraft :: "flight_track \<Rightarrow> flight_path_point \<Rightarrow> aircraft" where
  "pseudoAircraft track point =
    \<lparr>icao24 = t_icao24 track, callsign = Some (t_callsign track), origin_country = [],
     longitude = p_longitude point, latitude = p_latitude point,
     baro_altitude = p_baro_altitude point, geo_altitude = None, velocity = None,
     true_track = p_true_track point, vertical_rate = None, on_ground = p_on_ground point,
     squawk = None, spi = False, position_source = 0, last_contact = p_time point,
     time_position = Some (p_time point), category = None\<rparr>"

fun track_loop ::
  "(real \<Rightarrow> real) \<Rightarrow> (nat \<Rightarrow> real) \<Rightarrow> flight_track \<Rightarrow> flight_path_point list \<Rightarrow> det_state
    \<Rightarrow> flight_anomaly list \<times> det_state" where
  "track_loop rnd clk track [] s = ([], s)"
| "track_loop rnd clk track (point # points) s =
    (if p_latitude point \<noteq> None \<and> p_longitude point \<noteq> None then
       (let (detected, s1) = detectAnomalies rnd clk (pseudoAircraft track point) s;
            (later, s2) = track_loop rnd clk track points s1
        in (detected @ later, s2))
     else track_loop rnd clk track points s)"

definition analyzeFlightTrack ::
  "(real \<Rightarrow> real) \<Rightarrow> (nat \<Rightarrow> real) \<Rightarrow> flight_track \<Rightarrow> det_state
    \<Rightarrow> flight_anomaly list \<times> det_state" where
  "analyzeFlightTrack rnd clk track s = track_loop rnd clk track (path track) s"

subsection \<open>Statistics\<close>

text \<open>The string literals of the two union types, which are the keys of the result.\<close>

fun severity_key :: "Severity \<Rightarrow> string" where
  "severity_key low = ''low''"
| "severity_key medium = ''medium''"
| "severity_key high = ''high''"
| "severity_key critical = ''critical''"

fun type_key :: "AnomalyType \<Rightarrow> string" where
  "type_key altitude_drop = ''altitude_drop''"
| "type_key holding_pattern = ''holding_pattern''"
| "type_key emergency_squawk = ''emergency_squawk''"
| "type_key route_deviation = ''route_deviation''"
| "type_key rapid_descent = ''rapid_descent''"
| "type_key unusual_speed = ''unusual_speed''"
| "type_key go_around = ''go_around''"
| "type_key diversion = ''diversion''"

text \<open>
  \<^verbatim>\<open>stats[anomaly.severity]++\<close> reads a key that the initial object always has, a
  severity being one of its four literals; the branch for a missing key is never taken and
  leaves the object as it is. \<^verbatim>\<open>(byType[t] || 0) + 1\<close> starts a missing key at \<open>1\<close>.
\<close>

definition increment :: "(string \<rightharpoonup> nat) \<Rightarrow> string \<Rightarrow> (string \<rightharpoonup> nat)" where
  "increment stats k = (case stats k of None \<Rightarrow> stats | Some n \<Rightarrow> stats(k \<mapsto> n + 1))"

definition count_type :: "(string \<rightharpoonup> nat) \<Rightarrow> string \<Rightarrow> (string \<rightharpoonup> nat)" where
  "count_type byType k = byType(k \<mapsto> (case byType k of None \<Rightarrow> 0 | Some n \<Rightarrow> n) + 1)"

fun stats_loop ::
  "flight_anomaly list \<Rightarrow> (string \<rightharpoonup> nat) \<times> (string \<rightharpoonup> nat)
    \<Rightarrow> (string \<rightharpoonup> nat) \<times> (string \<rightharpoonup> nat)" where
  "stats_loop [] (stats, byType) = (stats, byType)"
| "stats_loop (anomaly # anomalies) (stats, byType) =
    stats_loop anomalies
      (increment stats (severity_key (a_severity anomaly)),
       count_type byType (type_key (a_type anomaly)))"

text \<open>\<^verbatim>\<open>{ ...stats, ...byType }\<close>: a key of \<open>byType\<close> overrides the same key of \<open>stats\<close>.\<close>

definition getAnomalyStats :: "flight_anomaly list \<Rightarrow> (string \<rightharpoonup> nat)" where
  "getAnomalyStats anomalies =
    (let stats0 = [''total'' \<mapsto> length anomalies, ''critical'' \<mapsto> 0, ''high'' \<mapsto> 0,
                   ''medium'' \<mapsto> 0, ''low'' \<mapsto> 0];
         (stats, byType) = stats_loop anomalies (stats0, Map.empty)
     in stats ++ byType)"

section \<open>The upstream client\<close>

subsection \<open>State vector normalizer\<close>

text \<open>
  An element of a positional record is a JSON scalar; reading past the end of an array
  gives \<^verbatim>\<open>undefined\<close>. The casts \<^verbatim>\<open>state[i] as T\<close> are erased at run time, so the
  object that \<^verbatim>\<open>parseStateVector\<close> builds holds whatever values the record has.
\<close>

datatype jsval = JUndefined | JNull | JBool bool | JNum real | JStr string

datatype js_error = TypeError | ReferenceError | ApiError nat | Rejection

definition element :: "jsval list \<Rightarrow> nat \<Rightarrow> jsval" where
  "element state i = (if i < length state then state ! i else JUndefined)"

fun truthy :: "jsval \<Rightarrow> bool" where
  "truthy JUndefined = False"
| "truthy JNull = False"
| "truthy (JBool b) = b"
| "truthy (JNum n) = (n \<noteq> 0)"
| "truthy (JStr s) = (s \<noteq> [])"

text \<open>\<^verbatim>\<open>String.prototype.trim\<close>, on the white space of the 8-bit range.\<close>

definition white_space :: "char \<Rightarrow> bool" where
  "white_space c = (c \<in> set [CHR 0x09, CHR 0x0A, CHR 0x0B, CHR 0x0C, CHR 0x0D, CHR 0x20, CHR 0xA0])"

definition trim :: "string \<Rightarrow> string" where
  "trim s = rev (dropWhile white_space (rev (dropWhile white_space s)))"

record raw_aircraft =
  r_icao24 :: jsval
  r_callsign :: jsval
  r_origin_country :: jsval
  r_time_position :: jsval
  r_last_contact :: jsval
  r_longitude :: jsval
  r_latitude :: jsval
  r_baro_altitude :: jsval
  r_on_ground :: jsval
  r_velocity :: jsval
  r_true_track :: jsval
  r_vertical_rate :: jsval
  r_geo_altitude :: jsval
  r_squawk :: jsval
  r_spi :: jsval
  r_position_source :: jsval
  r_category :: jsval

definition positional :: "jsval list \<Rightarrow> jsval \<Rightarrow> raw_aircraft" where
  "positional state cs =
    \<lparr>r_icao24 = element state 0, r_callsign = cs, r_origin_country = element state 2,
     r_time_position = element state 3, r_last_contact = element state 4,
     r_longitude = element state 5, r_latitude = element state 6,
     r_baro_altitude = element state 7, r_on_ground = element state 8,
     r_velocity = element state 9, r_true_track = element state 10,
     r_vertical_rate = element state 11, r_geo_altitude = element state 13,
     r_squawk = element state 14, r_spi = element state 15,
     r_position_source = element state 16, r_category = element state 17\<rparr>"

text \<open>
  \<^verbatim>\<open>state[1] ? (state[1] as string).trim() : null\<close>: a truthy value that is not a
  string has no \<^verbatim>\<open>trim\<close> method, and the call throws a \<^verbatim>\<open>TypeError\<close>. Nothing else in
  the function can fail.
\<close>

definition parseStateVector :: "jsval list \<Rightarrow> js_error + raw_aircraft" where
  "parseStateVector state =
    (if truthy (element state 1) then
       (case element state 1 of
          JStr c \<Rightarrow> Inr (positional state (JStr (trim c)))
        | _ \<Rightarrow> Inl TypeError)
     else Inr (positional state JNull))"

text \<open>
  The positional schema, \<^verbatim>\<open>interface OpenSkyStateVector\<close>: 18 fields with these types.
  Index 12 (\<^verbatim>\<open>sensors\<close>) is never read and is left free.
\<close>

fun is_str :: "jsval \<Rightarrow> bool" where
  "is_str (JStr s) = True"
| "is_str _ = False"

fun is_num :: "jsval \<Rightarrow> bool" where
  "is_num (JNum n) = True"
| "is_num _ = False"

fun is_bool :: "jsval \<Rightarrow> bool" where
  "is_bool (JBool b) = True"
| "is_bool _ = False"

definition nullable :: "(jsval \<Rightarrow> bool) \<Rightarrow> jsval \<Rightarrow> bool" where
  "nullable p v = (v = JNull \<or> p v)"

definition schema_ok :: "jsval list \<Rightarrow> bool" where
  "schema_ok state =
    (length state = 18
     \<and> is_str (state ! 0) \<and> nullable is_str (state ! 1) \<and> is_str (state ! 2)
     \<and> nullable is_num (state ! 3) \<and> is_num (state ! 4)
     \<and> nullable is_num (state ! 5) \<and> nullable is_num (state ! 6)
     \<and> nullable is_num (state ! 7) \<and> is_bool (state ! 8)
     \<and> nullable is_num (state ! 9) \<and> nullable is_num (state ! 10)
     \<and> nullable is_num (state ! 11) \<and> nullable is_num (state ! 13)
     \<and> nullable is_str (state ! 14) \<and> is_bool (state ! 15)
     \<and> is_num (state ! 16) \<and> nullable is_num (state ! 17))"

text \<open>
  The typed view of a parsed object: the \<^typ>\<open>aircraft\<close> it is when every field has the
  type \<^verbatim>\<open>interface Aircraft\<close> declares, and nothing otherwise.
\<close>

fun str_of :: "jsval \<Rightarrow> string" where
  "str_of (JStr s) = s"
| "str_of _ = []"

fun num_of :: "jsval \<Rightarrow> real" where
  "num_of (JNum n) = n"
| "num_of _ = 0"

fun bool_of :: "jsval \<Rightarrow> bool" where
  "bool_of (JBool b) = b"
| "bool_of _ = False"

fun opt_str :: "jsval \<Rightarrow> string option" where
  "opt_str (JStr s) = Some s"
| "opt_str _ = None"

fun opt_num :: "jsval \<Rightarrow> real option" where
  "opt_num (JNum n) = Some n"
| "opt_num _ = None"

definition well_typed :: "raw_aircraft \<Rightarrow> bool" where
  "well_typed r =
    (is_str (r_icao24 r) \<and> nullable is_str (r_callsign r) \<and> is_str (r_origin_country r)
     \<and> nullable is_num (r_time_position r) \<and> is_num (r_last_contact r)
     \<and> nullable is_num (r_longitude r) \<and> nullable is_num (r_latitude r)
     \<and> nullable is_num (r_baro_altitude r) \<and> is_bool (r_on_ground r)
     \<and> nullable is_num (r_velocity r) \<and> nullable is_num (r_true_track r)
     \<and> nullable is_num (r_vertical_rate r) \<and> nullable is_num (r_geo_altitude r)
     \<and> nullable is_str (r_squawk r) \<and> is_bool (r_spi r)
     \<and> is_num (r_position_source r) \<and> nullable is_num (r_category r))"

definition as_aircraft :: "raw_aircraft \<Rightarrow> aircraft option" where
  "as_aircraft r =
    (if well_typed r then
       Some \<lparr>icao24 = str_of (r_icao24 r), callsign = opt_str (r_callsign r),
             origin_country = str_of (r_origin_country r),
             longitude = opt_num (r_longitude r), latitude = opt_num (r_latitude r),
             baro_altitude = opt_num (r_baro_altitude r),
             geo_altitude = opt_num (r_geo_altitude r), velocity = opt_num (r_velocity r),
             true_track = opt_num (r_true_track r),
             vertical_rate = opt_num (r_vertical_rate r),
             on_ground = bool_of (r_on_ground r), squawk = opt_str (r_squawk r),
             spi = bool_of (r_spi r), position_source = num_of (r_position_source r),
             last_contact = num_of (r_last_contact r),
             time_position = opt_num (r_time_position r),
             category = opt_num (r_category r)\<rparr>
     else None)"

text \<open>\<^verbatim>\<open>data.states.map(parseStateVector)\<close>: the first record that throws ends the map.\<close>

fun parse_all :: "jsval list list \<Rightarrow> js_error + raw_aircraft list" where
  "parse_all [] = Inr []"
| "parse_all (state # states) =
    (case parseStateVector state of
       Inl e \<Rightarrow> Inl e
     | Inr a \<Rightarrow> (case parse_all states of Inl e \<Rightarrow> Inl e | Inr parsed \<Rightarrow> Inr (a # parsed)))"

subsection \<open>Response cache and backoff\<close>

text \<open>
  The client computes with clock readings only, which are whole milliseconds, and with
  whole constants: its sums and differences are whole numbers far below \<open>2 ^ 53\<close>, on
  which double arithmetic is exact. No rounding appears in this part.
\<close>

definition CACHE_TTL_MS :: real where
  "CACHE_TTL_MS = 15000"

definition STALE_TTL_MS :: real where
  "STALE_TTL_MS = 300000"

definition BACKOFF_SECONDS :: real where
  "BACKOFF_SECONDS = 60"

record cache_entry =
  data :: "raw_aircraft list"
  timestamp :: real

text \<open>
  The module's variables. The module has no declaration of \<^verbatim>\<open>consecutiveFailures\<close>,
  the identifier \<^verbatim>\<open>getStatesByIcao24\<close> increments and resets: its binding is absent
  (\<open>None\<close>) when the module is loaded, and module code is strict, so that no assignment
  creates it.
\<close>

record client_state =
  responseCache :: "string \<rightharpoonup> cache_entry"
  backoffUntil :: real
  inflightRequests :: "string set"
  consecutiveFailures :: "nat option"

definition module_loaded :: client_state where
  "module_loaded =
    \<lparr>responseCache = Map.empty, backoffUntil = 0, inflightRequests = {},
     consecutiveFailures = None\<rparr>"

definition getCached ::
  "real \<Rightarrow> (string \<rightharpoonup> cache_entry) \<Rightarrow> string \<Rightarrow> (raw_aircraft list \<times> bool) option" where
  "getCached now cache key =
    (case cache key of
       None \<Rightarrow> None
     | Some entry \<Rightarrow>
         let age = now - timestamp entry in
         if age < CACHE_TTL_MS then Some (data entry, True)
         else if age < STALE_TTL_MS then Some (data entry, False)
         else None)"

definition setCache :: "real \<Rightarrow> string \<Rightarrow> raw_aircraft list \<Rightarrow> client_state \<Rightarrow> client_state" where
  "setCache now key d s =
    s\<lparr>responseCache := (responseCache s)(key \<mapsto> \<lparr>data = d, timestamp = now\<rparr>)\<rparr>"

text \<open>\<^verbatim>\<open>cached?.fresh\<close> and \<^verbatim>\<open>cached?.data || []\<close> (an array is always truthy).\<close>

definition is_fresh :: "(raw_aircraft list \<times> bool) option \<Rightarrow> bool" where
  "is_fresh cached = (case cached of None \<Rightarrow> False | Some (d, fresh) \<Rightarrow> fresh)"

definition fallback :: "(raw_aircraft list \<times> bool) option \<Rightarrow> raw_aircraft list" where
  "fallback cached = (case cached of None \<Rightarrow> [] | Some (d, fresh) \<Rightarrow> d)"

text \<open>
  What the network gives when a request is made: \<^verbatim>\<open>rateLimitedFetch\<close> rejects, or it
  resolves to a response with a status, whose \<^verbatim>\<open>json()\<close> rejects or resolves to a body
  with its \<^verbatim>\<open>states\<close> (\<^verbatim>\<open>null\<close> is \<open>None\<close>). The pacing and the credentials inside
  \<^verbatim>\<open>rateLimitedFetch\<close> are not modelled.
\<close>

datatype body = InvalidJson | Body "jsval list list option"

datatype upstream = FetchRejects | Response nat body

definition response_ok :: "nat \<Rightarrow> bool" where
  "response_ok status = (200 \<le> status \<and> status \<le> 299)"

subsection \<open>\<^verbatim>\<open>getAllStates\<close>\<close>

text \<open>
  A call has a synchronous part, which ends by returning data, by returning the promise
  of a request already in flight, or by starting a request; and a part that runs when the
  request settles. \<open>now1\<close> is the clock reading of \<^verbatim>\<open>getCached\<close>, \<open>now2\<close> that of the
  backoff test, \<open>now\<close> that of the handler of the response.
\<close>

datatype issue = Served "raw_aircraft list" | Joined | Started "(raw_aircraft list \<times> bool) option"

definition getAllStates_issue :: "real \<Rightarrow> real \<Rightarrow> client_state \<Rightarrow> issue \<times> client_state" where
  "getAllStates_issue now1 now2 s =
    (let cached = getCached now1 (responseCache s) ''all_states'' in
     if is_fresh cached then (Served (fallback cached), s)
     else if now2 < backoffUntil s then (Served (fallback cached), s)
     else if ''all_states'' \<in> inflightRequests s then (Joined, s)
     else (Started cached,
           s\<lparr>inflightRequests := insert ''all_states'' (inflightRequests s)\<rparr>))"

text \<open>The \<^verbatim>\<open>try\<close> block: \<open>Inl\<close> is an exception on its way to the \<^verbatim>\<open>catch\<close>.\<close>

definition getAllStates_try ::
  "real \<Rightarrow> (raw_aircraft list \<times> bool) option \<Rightarrow> upstream \<Rightarrow> client_state
    \<Rightarrow> (js_error + raw_aircraft list) \<times> client_state" where
  "getAllStates_try now cached up s =
    (case up of
       FetchRejects \<Rightarrow> (Inl Rejection, s)
     | Response status b \<Rightarrow>
         if status = 429 then
           (Inr (fallback cached), s\<lparr>backoffUntil := now + BACKOFF_SECONDS * 1000\<rparr>)
         else if \<not> response_ok status then (Inl (ApiError status), s)
         else
           (case b of
              InvalidJson \<Rightarrow> (Inl Rejection, s)
            | Body None \<Rightarrow> (Inr [], setCache now ''all_states'' [] s)
            | Body (Some states) \<Rightarrow>
                (case parse_all states of
                   Inl e \<Rightarrow> (Inl e, s)
                 | Inr result \<Rightarrow> (Inr result, setCache now ''all_states'' result s))))"

text \<open>The \<^verbatim>\<open>catch\<close> (fall back to the cached data) and the \<^verbatim>\<open>finally\<close>.\<close>

definition getAllStates_settle ::
  "real \<Rightarrow> (raw_aircraft list \<times> bool) option \<Rightarrow> upstream \<Rightarrow> client_state
    \<Rightarrow> raw_aircraft list \<times> client_state" where
  "getAllStates_settle now cached up s =
    (let (r, s1) = getAllStates_try now cached up s;
         result = (case r of Inl e \<Rightarrow> fallback cached | Inr d \<Rightarrow> d)
     in (result, s1\<lparr>inflightRequests := inflightRequests s1 - {''all_states''}\<rparr>))"

text \<open>
  A call that runs alone, from issue to settlement. The result is the data the promise
  resolves to (\<open>None\<close> when the call hands back the promise of another call), whether the
  call made a network request, and the state it leaves.
\<close>

definition getAllStates ::
  "real \<Rightarrow> real \<Rightarrow> real \<Rightarrow> upstream \<Rightarrow> client_state
    \<Rightarrow> raw_aircraft list option \<times> bool \<times> client_state" where
  "getAllStates now1 now2 now up s =
    (case getAllStates_issue now1 now2 s of
       (Served d, s1) \<Rightarrow> (Some d, False, s1)
     | (Joined, s1) \<Rightarrow> (None, False, s1)
     | (Started cached, s1) \<Rightarrow>
         (let (d, s2) = getAllStates_settle now cached up s1 in (Some d, True, s2)))"

subsection \<open>\<^verbatim>\<open>getStatesByIcao24\<close>\<close>

text \<open>
  The cache key: \<^verbatim>\<open>icao24List.sort().join(',')\<close> after the prefix. The default sort
  orders strings by their code units.
\<close>

fun string_le :: "string \<Rightarrow> string \<Rightarrow> bool" where
  "string_le [] t = True"
| "string_le (c # cs) [] = False"
| "string_le (c # cs) (d # ds) =
    ((of_char c :: nat) < of_char d \<or> (c = d \<and> string_le cs ds))"

definition string_compare :: "string \<Rightarrow> string \<Rightarrow> int" where
  "string_compare a b = (if a = b then 0 else if string_le a b then - 1 else 1)"

fun join :: "string \<Rightarrow> string list \<Rightarrow> string" where
  "join sep [] = []"
| "join sep [x] = x"
| "join sep (x # y # ys) = x @ sep @ join sep (y # ys)"

definition icao24_key :: "string list \<Rightarrow> string" where
  "icao24_key icao24List = ''icao24_'' @ join '','' (array_sort string_compare icao24List)"

text \<open>
  The \<^verbatim>\<open>try\<close> block. \<^verbatim>\<open>consecutiveFailures++\<close> and \<^verbatim>\<open>consecutiveFailures = 0\<close> throw a
  \<^verbatim>\<open>ReferenceError\<close> where the binding is absent.
\<close>

definition getStatesByIcao24_try ::
  "real \<Rightarrow> string \<Rightarrow> (raw_aircraft list \<times> bool) option \<Rightarrow> upstream \<Rightarrow> client_state
    \<Rightarrow> (js_error + raw_aircraft list) \<times> client_state" where
  "getStatesByIcao24_try now key cached up s =
    (case up of
       FetchRejects \<Rightarrow> (Inl Rejection, s)
     | Response status b \<Rightarrow>
         if status = 429 then
           (case consecutiveFailures s of
              None \<Rightarrow> (Inl ReferenceError, s)
            | Some n \<Rightarrow>
                let waitSeconds = min (30 * 2 ^ ((n + 1) - 1)) (300 :: real) in
                (Inr (fallback cached),
                 s\<lparr>consecutiveFailures := Some (n + 1),
                   backoffUntil := now + waitSeconds * 1000\<rparr>))
         else if \<not> response_ok status then (Inl (ApiError status), s)
         else
           (case consecutiveFailures s of
              None \<Rightarrow> (Inl ReferenceError, s)
            | Some n \<Rightarrow>
                let s0 = s\<lparr>consecutiveFailures := Some 0\<rparr> in
                (case b of
                   InvalidJson \<Rightarrow> (Inl Rejection, s0)
                 | Body None \<Rightarrow> (Inr [], setCache now key [] s0)
                 | Body (Some states) \<Rightarrow>
                     (case parse_all states of
                        Inl e \<Rightarrow> (Inl e, s0)
                      | Inr result \<Rightarrow> (Inr result, setCache now key result s0)))))"

definition getStatesByIcao24 ::
  "real \<Rightarrow> real \<Rightarrow> real \<Rightarrow> upstream \<Rightarrow> string list \<Rightarrow> client_state
    \<Rightarrow> raw_aircraft list \<times> bool \<times> client_state" where
  "getStatesByIcao24 now1 now2 now up icao24List s =
    (let key = icao24_key icao24List;
         cached = getCached now1 (responseCache s) key
     in if is_fresh cached then (fallback cached, False, s)
        else if now2 < backoffUntil s then (fallback cached, False, s)
        else
          let (r, s1) = getStatesByIcao24_try now key cached up s
          in ((case r of Inl e \<Rightarrow> fallback cached | Inr d \<Rightarrow> d), True, s1))"

section \<open>Concrete inputs\<close>

text \<open>An airborne aircraft with a position and nothing else, and the state of a fresh module.\<close>

definition sample_aircraft :: aircraft where
  "sample_aircraft =
    \<lparr>icao24 = ''abc123'', callsign = None, origin_country = [], longitude = Some 20,
     latitude = Some 10, baro_altitude = None, geo_altitude = None, velocity = None,
     true_track = None, vertical_rate = None, on_ground = False, squawk = None, spi = False,
     position_source = 0, last_contact = 0, time_position = None, category = None\<rparr>"

definition fresh_start :: det_state where
  "fresh_start = \<lparr>aircraftHistory = Map.empty, ticks = 0\<rparr>"


text \<open>
  Two reports of one aircraft, 6000 m apart in altitude, both with the upstream timestamp
  1005, ingested at clock readings 1005 s and 1065 s.
\<close>

definition first_report :: aircraft where
  "first_report =
    sample_aircraft\<lparr>baro_altitude := Some 10000, vertical_rate := Some 0, last_contact := 1005\<rparr>"

definition second_report :: aircraft where
  "second_report =
    sample_aircraft\<lparr>baro_altitude := Some 4000, vertical_rate := Some 0, last_contact := 1005\<rparr>"

text \<open>A second report whose upstream timestamp is the clock reading of its ingestion.\<close>

definition punctual_report :: aircraft where
  "punctual_report =
    sample_aircraft\<lparr>baro_altitude := Some 4000, vertical_rate := Some 0, last_contact := 1065\<rparr>"

text \<open>The clock of the two polls: each pass reads it twice.\<close>

definition poll_clock :: "nat \<Rightarrow> real" where
  "poll_clock n = (if n < 2 then 1005000 else 1065000)"

text \<open>A fast aircraft, and one squawking 7700.\<close>

definition fast_aircraft :: aircraft where
  "fast_aircraft = sample_aircraft\<lparr>icao24 := ''fa57aa'', velocity := Some 400\<rparr>"

definition mayday_aircraft :: aircraft where
  "mayday_aircraft = sample_aircraft\<lparr>icao24 := ''e3e57a'', squawk := Some ''7700''\<rparr>"

text \<open>A positional record as the upstream sends it, with a padded callsign.\<close>

definition sample_state :: "jsval list" where
  "sample_state =
    [JStr ''3c6444'', JStr ''DLH9KC  '', JStr ''Germany'', JNum 1700000000, JNum 1700000001,
     JNum 8.5, JNum 50, JNum 10972.8, JBool False, JNum 230, JNum 90, JNum 0, JNull,
     JNum 11000, JStr ''1000'', JBool False, JNum 0, JNull]"

text \<open>
  A client whose cache holds one entry written at time 0, and the same client after a 429
  answered at time 200100.
\<close>

definition stale_entry_state :: client_state where
  "stale_entry_state =
    \<lparr>responseCache = [''all_states'' \<mapsto> \<lparr>data = [positional sample_state JNull], timestamp = 0\<rparr>],
     backoffUntil = 0, inflightRequests = {}, consecutiveFailures = None\<rparr>"

definition throttled_state :: client_state where
  "throttled_state = stale_entry_state\<lparr>backoffUntil := 260100\<rparr>"

text \<open>The same client after a 429 answered at time 400100, when its entry has expired.\<close>

definition throttled_late_state :: client_state where
  "throttled_late_state = stale_entry_state\<lparr>backoffUntil := 460100\<rparr>"

section \<open>Properties of the history store\<close>

lemma getHistory_addToHistory:
  "getHistory (addToHistory rnd now1 now2 a m) (icao24 a) =
    (let filtered =
           filter (\<lambda>x. last_contact x > rnd (rnd (now2 / 1000) - rnd (HISTORY_RETENTION_MS / 1000)))
             (getHistory m (icao24 a) @ [a\<lparr>last_contact := rnd (now1 / 1000)\<rparr>])
     in drop (length filtered - 100) filtered)"
  by (simp add: addToHistory_def getHistory_def Let_def HISTORY_MAX_SIZE_def)

lemma getHistory_addToHistory_other:
  "k \<noteq> icao24 a \<Longrightarrow> getHistory (addToHistory rnd now1 now2 a m) k = getHistory m k"
  by (simp add: addToHistory_def getHistory_def Let_def)

lemma length_getHistory_addToHistory:
  "length (getHistory (addToHistory rnd now1 now2 a m) (icao24 a))
    \<le> Suc (length (getHistory m (icao24 a)))"
proof -
  let ?f = "filter (\<lambda>x. last_contact x > rnd (rnd (now2 / 1000) - rnd (HISTORY_RETENTION_MS / 1000)))
             (getHistory m (icao24 a) @ [a\<lparr>last_contact := rnd (now1 / 1000)\<rparr>])"
  have eq: "getHistory (addToHistory rnd now1 now2 a m) (icao24 a) = drop (length ?f - 100) ?f"
    by (simp add: getHistory_addToHistory Let_def)
  have "length ?f \<le> length (getHistory m (icao24 a) @ [a\<lparr>last_contact := rnd (now1 / 1000)\<rparr>])"
    by (rule length_filter_le)
  then have "length (drop (length ?f - 100) ?f) \<le> Suc (length (getHistory m (icao24 a)))"
    by simp
  then show ?thesis
    unfolding eq .
qed

text \<open>
  Claim C4. After every \<^verbatim>\<open>addToHistory\<close> call, whatever the prior window and the inserted
  state, the aircraft's window has at most 100 entries and every entry is younger than
  the cutoff that the call computes for the 30-minute bound (1800 s before the clock
  reading of the trim); the window is the age-filtered sequence with its oldest entries
  beyond 100 removed, so the age trim comes first. This holds for every rounding, and
  the last two lines say it for exact arithmetic.
\<close>

theorem addToHistory_window_bounded:
  "length (getHistory (addToHistory rnd now1 now2 a m) (icao24 a)) \<le> 100
   \<and> HISTORY_RETENTION_MS / 1000 = 30 * 60
   \<and> list_all
        (\<lambda>e. last_contact e > rnd (rnd (now2 / 1000) - rnd (HISTORY_RETENTION_MS / 1000)))
        (getHistory (addToHistory rnd now1 now2 a m) (icao24 a))
   \<and> getHistory (addToHistory rnd now1 now2 a m) (icao24 a) =
       drop (length (filter
                (\<lambda>e. last_contact e > rnd (rnd (now2 / 1000) - rnd (HISTORY_RETENTION_MS / 1000)))
                (getHistory m (icao24 a) @ [a\<lparr>last_contact := rnd (now1 / 1000)\<rparr>])) - 100)
         (filter
            (\<lambda>e. last_contact e > rnd (rnd (now2 / 1000) - rnd (HISTORY_RETENTION_MS / 1000)))
            (getHistory m (icao24 a) @ [a\<lparr>last_contact := rnd (now1 / 1000)\<rparr>]))
   \<and> list_all (\<lambda>e. last_contact e > now2 / 1000 - 30 * 60)
        (getHistory (addToHistory (\<lambda>x. x) now1 now2 a m) (icao24 a))
   \<and> getHistory (addToHistory (\<lambda>x. x) now1 now2 a m) (icao24 a) =
       drop (length (filter (\<lambda>e. last_contact e > now2 / 1000 - 30 * 60)
                (getHistory m (icao24 a) @ [a\<lparr>last_contact := now1 / 1000\<rparr>])) - 100)
         (filter (\<lambda>e. last_contact e > now2 / 1000 - 30 * 60)
            (getHistory m (icao24 a) @ [a\<lparr>last_contact := now1 / 1000\<rparr>]))"
proof -
  have gen: "length (getHistory (addToHistory r now1 now2 a m) (icao24 a)) \<le> 100
     \<and> list_all (\<lambda>e. last_contact e > r (r (now2 / 1000) - r (HISTORY_RETENTION_MS / 1000)))
          (getHistory (addToHistory r now1 now2 a m) (icao24 a))
     \<and> getHistory (addToHistory r now1 now2 a m) (icao24 a) =
         drop (length (filter
                  (\<lambda>e. last_contact e > r (r (now2 / 1000) - r (HISTORY_RETENTION_MS / 1000)))
                  (getHistory m (icao24 a) @ [a\<lparr>last_contact := r (now1 / 1000)\<rparr>])) - 100)
           (filter
              (\<lambda>e. last_contact e > r (r (now2 / 1000) - r (HISTORY_RETENTION_MS / 1000)))
              (getHistory m (icao24 a) @ [a\<lparr>last_contact := r (now1 / 1000)\<rparr>]))"
    for r
  proof -
    let ?f = "filter
                (\<lambda>e. last_contact e > r (r (now2 / 1000) - r (HISTORY_RETENTION_MS / 1000)))
                (getHistory m (icao24 a) @ [a\<lparr>last_contact := r (now1 / 1000)\<rparr>])"
    have eq: "getHistory (addToHistory r now1 now2 a m) (icao24 a) = drop (length ?f - 100) ?f"
      by (simp add: getHistory_addToHistory Let_def)
    have len: "length (drop (length ?f - 100) ?f) \<le> 100"
      by simp
    have "list_all
            (\<lambda>e. last_contact e > r (r (now2 / 1000) - r (HISTORY_RETENTION_MS / 1000))) ?f"
      by (simp add: list_all_iff)
    then have age: "list_all
            (\<lambda>e. last_contact e > r (r (now2 / 1000) - r (HISTORY_RETENTION_MS / 1000)))
            (drop (length ?f - 100) ?f)"
      unfolding list_all_iff by (meson in_set_dropD)
    show ?thesis
      using eq len age by simp
  qed
  have k: "HISTORY_RETENTION_MS / 1000 = 30 * 60"
    by (simp add: HISTORY_RETENTION_MS_def)
  have exact: "list_all (\<lambda>e. last_contact e > now2 / 1000 - 30 * 60)
        (getHistory (addToHistory (\<lambda>x. x) now1 now2 a m) (icao24 a))
   \<and> getHistory (addToHistory (\<lambda>x. x) now1 now2 a m) (icao24 a) =
       drop (length (filter (\<lambda>e. last_contact e > now2 / 1000 - 30 * 60)
                (getHistory m (icao24 a) @ [a\<lparr>last_contact := now1 / 1000\<rparr>])) - 100)
         (filter (\<lambda>e. last_contact e > now2 / 1000 - 30 * 60)
            (getHistory m (icao24 a) @ [a\<lparr>last_contact := now1 / 1000\<rparr>]))"
    using gen [of "\<lambda>x. x"] unfolding k by blast
  show ?thesis
    using gen [of rnd] exact k by blast
qed

section \<open>Properties of the detection pass\<close>

lemma detector_results:
  "detectEmergencySquawk a = Some x \<Longrightarrow> x = anomaly_of a emergency_squawk critical"
  "detectAltitudeAnomaly rnd m a = Some x \<Longrightarrow>
     x = anomaly_of a rapid_descent high \<or> x = anomaly_of a altitude_drop high"
  "detectHoldingPattern rnd m a = Some x \<Longrightarrow> x = anomaly_of a holding_pattern medium"
  "detectSpeedAnomaly rnd a = Some x \<Longrightarrow>
     x = anomaly_of a unusual_speed medium \<or> x = anomaly_of a unusual_speed low"
  "detectGoAround rnd m a = Some x \<Longrightarrow> x = anomaly_of a go_around medium"
  by (auto simp: detectEmergencySquawk_def detectAltitudeAnomaly_def detectHoldingPattern_def
      detectSpeedAnomaly_def detectGoAround_def Let_def split: option.splits if_splits prod.splits)

lemma a_type_anomaly_of [simp]: "a_type (anomaly_of a ty sev) = ty"
  and a_severity_anomaly_of [simp]: "a_severity (anomaly_of a ty sev) = sev"
  by (simp_all add: anomaly_of_def)

lemma map_filter_detectors:
  "List.map_filter (\<lambda>detector. detector m a) (detectors rnd) =
     (case detectEmergencySquawk a of None \<Rightarrow> [] | Some x \<Rightarrow> [x]) @
     (case detectAltitudeAnomaly rnd m a of None \<Rightarrow> [] | Some x \<Rightarrow> [x]) @
     (case detectHoldingPattern rnd m a of None \<Rightarrow> [] | Some x \<Rightarrow> [x]) @
     (case detectSpeedAnomaly rnd a of None \<Rightarrow> [] | Some x \<Rightarrow> [x]) @
     (case detectGoAround rnd m a of None \<Rightarrow> [] | Some x \<Rightarrow> [x])"
  by (simp add: detectors_def List.map_filter_def split: option.splits)

lemma emergency_only_from_squawk:
  "filter (\<lambda>x. a_type x = emergency_squawk)
     (List.map_filter (\<lambda>detector. detector m a) (detectors rnd))
    = (case detectEmergencySquawk a of None \<Rightarrow> [] | Some x \<Rightarrow> [x])"
  unfolding map_filter_detectors
  by (auto split: option.splits dest!: detector_results)

text \<open>
  Claim C2. An aircraft whose latitude is null or whose longitude is null yields the empty
  list and leaves the detection state, and so every history window, as it was, whatever
  its other fields are.
\<close>

theorem detectAnomalies_skips_without_position:
  "latitude a = None \<or> longitude a = None \<Longrightarrow> detectAnomalies rnd clk a s = ([], s)"
  by (simp add: detectAnomalies_def)

text \<open>The same aircraft with squawk 7700: the squawk detector would fire, the pass is empty.\<close>

theorem detectAnomalies_skips_without_position_witness:
  "detectEmergencySquawk (sample_aircraft\<lparr>latitude := None, squawk := Some ''7700''\<rparr>) \<noteq> None
   \<and> detectAnomalies (\<lambda>x. x) (\<lambda>n. 0)
         (sample_aircraft\<lparr>latitude := None, squawk := Some ''7700''\<rparr>) fresh_start
       = ([], fresh_start)"
proof -
  have "latitude (sample_aircraft\<lparr>latitude := None, squawk := Some ''7700''\<rparr>) = None"
    by simp
  then have "detectAnomalies (\<lambda>x. x) (\<lambda>n. 0)
        (sample_aircraft\<lparr>latitude := None, squawk := Some ''7700''\<rparr>) fresh_start
       = ([], fresh_start)"
    using detectAnomalies_skips_without_position by blast
  moreover have
    "detectEmergencySquawk (sample_aircraft\<lparr>latitude := None, squawk := Some ''7700''\<rparr>) \<noteq> None"
    by (simp add: detectEmergencySquawk_def property_read_def EMERGENCY_SQUAWKS_def)
  ultimately show ?thesis by simp
qed

text \<open>Replaying a track skips the points without a position in the same way.\<close>

lemma analyzeFlightTrack_skips_without_position:
  "list_all (\<lambda>point. p_latitude point = None \<or> p_longitude point = None) (path track)
    \<Longrightarrow> analyzeFlightTrack rnd clk track s = ([], s)"
proof -
  have "list_all (\<lambda>point. p_latitude point = None \<or> p_longitude point = None) ps
    \<Longrightarrow> track_loop rnd clk track ps s = ([], s)" for ps
    by (induction ps) auto
  then show "list_all (\<lambda>point. p_latitude point = None \<or> p_longitude point = None) (path track)
    \<Longrightarrow> analyzeFlightTrack rnd clk track s = ([], s)"
    by (simp add: analyzeFlightTrack_def)
qed

subsection \<open>Emergency squawk\<close>

text \<open>
  With a position and one of the three codes of the table, a pass yields exactly one
  anomaly of type \<open>emergency_squawk\<close>, and it is critical; no history is needed and all
  other fields are free.
\<close>

lemma emergency_squawk_table_codes:
  assumes "squawk a = Some sq" "sq = ''7500'' \<or> sq = ''7600'' \<or> sq = ''7700''"
    and "latitude a \<noteq> None" "longitude a \<noteq> None"
  shows "filter (\<lambda>x. a_type x = emergency_squawk) (fst (detectAnomalies rnd clk a s))
          = [anomaly_of a emergency_squawk critical]"
proof -
  have "detectEmergencySquawk a = Some (anomaly_of a emergency_squawk critical)"
    using assms(1,2)
    by (auto simp: detectEmergencySquawk_def property_read_def EMERGENCY_SQUAWKS_def)
  then show ?thesis
    using assms(3,4) by (simp add: detectAnomalies_def Let_def emergency_only_from_squawk)
qed

text \<open>
  No squawk, or a squawk that is neither in the table nor the name of a property of
  \<^verbatim>\<open>Object.prototype\<close>, yields none.
\<close>

lemma emergency_squawk_other_codes:
  assumes "squawk a = None
    \<or> (\<exists>sq. squawk a = Some sq \<and> sq \<notin> {''7500'', ''7600'', ''7700''}
          \<and> sq \<notin> set Object_prototype)"
  shows "filter (\<lambda>x. a_type x = emergency_squawk) (fst (detectAnomalies rnd clk a s)) = []"
proof -
  have "detectEmergencySquawk a = None"
    using assms
    by (auto simp: detectEmergencySquawk_def property_read_def EMERGENCY_SQUAWKS_def)
  then show ?thesis
    by (simp add: detectAnomalies_def Let_def emergency_only_from_squawk)
qed

text \<open>
  Claim C3. Squawk 7500, 7600 or 7700 gives exactly one critical \<open>emergency_squawk\<close>
  anomaly, and any other squawk gives none. The code breaks the second half: an aircraft
  with a position whose squawk is the string \<^verbatim>\<open>constructor\<close> is reported as an emergency,
  because the table lookup finds the property the table object inherits.
\<close>

theorem emergency_squawk_inherited_property:
  "squawk (sample_aircraft\<lparr>squawk := Some ''constructor''\<rparr>) = Some ''constructor''
   \<and> latitude (sample_aircraft\<lparr>squawk := Some ''constructor''\<rparr>) = Some 10
   \<and> longitude (sample_aircraft\<lparr>squawk := Some ''constructor''\<rparr>) = Some 20
   \<and> detectEmergencySquawk (sample_aircraft\<lparr>squawk := Some ''constructor''\<rparr>)
       = Some (anomaly_of (sample_aircraft\<lparr>squawk := Some ''constructor''\<rparr>)
                 emergency_squawk critical)
   \<and> map (\<lambda>x. (a_type x, a_severity x))
        (fst (detectAnomalies rnd (\<lambda>n. 0) (sample_aircraft\<lparr>squawk := Some ''constructor''\<rparr>)
                fresh_start))
       = [(emergency_squawk, critical)]"
proof -
  let ?a = "sample_aircraft\<lparr>squawk := Some ''constructor''\<rparr>"
  let ?m = "addToHistory rnd 0 0 ?a Map.empty"
  have sq: "detectEmergencySquawk ?a = Some (anomaly_of ?a emergency_squawk critical)"
    by (simp add: detectEmergencySquawk_def property_read_def EMERGENCY_SQUAWKS_def
        Object_prototype_def sample_aircraft_def)
  have alt: "detectAltitudeAnomaly rnd ?m ?a = None"
    by (simp add: detectAltitudeAnomaly_def sample_aircraft_def)
  have sp: "detectSpeedAnomaly rnd ?a = None"
    by (simp add: detectSpeedAnomaly_def sample_aircraft_def)
  have len: "length (getHistory ?m (icao24 ?a)) \<le> 1"
    using length_getHistory_addToHistory [of rnd 0 0 ?a Map.empty]
    by (simp add: getHistory_def)
  have hold: "detectHoldingPattern rnd ?m ?a = None"
    using len by (simp add: detectHoldingPattern_def Let_def)
  have go: "detectGoAround rnd ?m ?a = None"
    using len by (simp add: detectGoAround_def Let_def)
  have "fst (detectAnomalies rnd (\<lambda>n. 0) ?a fresh_start)
          = [anomaly_of ?a emergency_squawk critical]"
    using sq alt sp hold go
    by (simp add: detectAnomalies_def Let_def map_filter_detectors fresh_start_def
        sample_aircraft_def)
  then show ?thesis
    using sq by (simp add: sample_aircraft_def)
qed

subsection \<open>Altitude drop\<close>

text \<open>
  The vertical-rate trigger fires exactly when the product the code computes is below
  the threshold. A vertical rate such as \<open>-20.32004064008128\<close>, whose product with
  \<open>196.85\<close> rounds to \<open>-4000\<close> itself in double arithmetic, gives no \<open>rapid_descent\<close>.
\<close>

lemma rapid_descent_exactly_when:
  "vertical_rate a = Some vr \<Longrightarrow> \<not> on_ground a \<Longrightarrow>
    (detectAltitudeAnomaly rnd m a = Some (anomaly_of a rapid_descent high))
      = (rnd (vr * rnd 196.85) < - 4000)"
proof -
  have "anomaly_of a altitude_drop high \<noteq> anomaly_of a rapid_descent high"
    by (simp add: anomaly_of_def)
  then show "vertical_rate a = Some vr \<Longrightarrow> \<not> on_ground a \<Longrightarrow>
    (detectAltitudeAnomaly rnd m a = Some (anomaly_of a rapid_descent high))
      = (rnd (vr * rnd 196.85) < - 4000)"
    by (auto simp: detectAltitudeAnomaly_def Let_def CRITICAL_VERTICAL_RATE_FPM_def
        split: option.splits)
qed




text \<open>
  Within a pass the stored samples carry the clock reading of their ingestion, and the
  detector takes the time of the current state from the upstream timestamp instead.
  Two reports ingested a minute apart, between which the aircraft lost 6000 m (a rate of
  \<open>-19686\<close> ft/min between the stored samples), give no anomaly when the upstream
  timestamp is not later than the first ingestion.
\<close>

lemma altitude_drop_mixed_clocks:
  "detectAnomalies (\<lambda>x. x) poll_clock first_report fresh_start
     = ([], \<lparr>aircraftHistory = [''abc123'' \<mapsto> [first_report]], ticks = 2\<rparr>)
   \<and> detectAnomalies (\<lambda>x. x) poll_clock second_report
        \<lparr>aircraftHistory = [''abc123'' \<mapsto> [first_report]], ticks = 2\<rparr>
     = ([], \<lparr>aircraftHistory =
               [''abc123'' \<mapsto> [first_report, second_report\<lparr>last_contact := 1065\<rparr>]],
             ticks = 4\<rparr>)
   \<and> ((4000 - 10000) * 3.281) / ((1065 - 1005) / 60) = (- 19686 :: real)"
proof -
  let ?m1 = "[''abc123'' \<mapsto> [first_report]]"
  let ?m2 = "[''abc123'' \<mapsto> [first_report, second_report\<lparr>last_contact := 1065\<rparr>]]"
  have m1: "addToHistory (\<lambda>x. x) 1005000 1005000 first_report Map.empty = ?m1"
    by (simp add: addToHistory_def getHistory_def first_report_def sample_aircraft_def
        HISTORY_RETENTION_MS_def HISTORY_MAX_SIZE_def Let_def)
  have m2: "addToHistory (\<lambda>x. x) 1065000 1065000 second_report ?m1 = ?m2"
    by (simp add: addToHistory_def getHistory_def first_report_def second_report_def
        sample_aircraft_def HISTORY_RETENTION_MS_def HISTORY_MAX_SIZE_def Let_def)
  have d1: "List.map_filter (\<lambda>detector. detector ?m1 first_report) (detectors (\<lambda>x. x)) = []"
    by (simp add: map_filter_detectors detectEmergencySquawk_def detectAltitudeAnomaly_def
        detectHoldingPattern_def detectSpeedAnomaly_def detectGoAround_def getHistory_def
        first_report_def sample_aircraft_def CRITICAL_VERTICAL_RATE_FPM_def Let_def)
  have d2: "List.map_filter (\<lambda>detector. detector ?m2 second_report) (detectors (\<lambda>x. x)) = []"
    by (simp add: map_filter_detectors detectEmergencySquawk_def detectAltitudeAnomaly_def
        detectHoldingPattern_def detectSpeedAnomaly_def detectGoAround_def getHistory_def
        first_report_def second_report_def sample_aircraft_def CRITICAL_VERTICAL_RATE_FPM_def
        Let_def)
  have p1: "detectAnomalies (\<lambda>x. x) poll_clock first_report fresh_start
     = ([], \<lparr>aircraftHistory = ?m1, ticks = 2\<rparr>)"
    using m1 d1
    by (simp add: detectAnomalies_def fresh_start_def poll_clock_def Let_def)
      (simp add: first_report_def sample_aircraft_def)
  have p2: "detectAnomalies (\<lambda>x. x) poll_clock second_report
        \<lparr>aircraftHistory = ?m1, ticks = 2\<rparr> = ([], \<lparr>aircraftHistory = ?m2, ticks = 4\<rparr>)"
    using m2 d2
    by (simp add: detectAnomalies_def poll_clock_def Let_def)
      (simp add: second_report_def sample_aircraft_def)
  show ?thesis
    using p1 p2 by simp
qed

text \<open>
  Where the upstream timestamp of the second report is the clock reading of its
  ingestion, the same descent is reported.
\<close>

lemma altitude_drop_matching_clocks:
  "detectAnomalies (\<lambda>x. x) poll_clock punctual_report
        \<lparr>aircraftHistory = [''abc123'' \<mapsto> [first_report]], ticks = 2\<rparr>
     = ([anomaly_of punctual_report altitude_drop high],
        \<lparr>aircraftHistory = [''abc123'' \<mapsto> [first_report, punctual_report]], ticks = 4\<rparr>)"
proof -
  let ?m1 = "[''abc123'' \<mapsto> [first_report]]"
  let ?m2 = "[''abc123'' \<mapsto> [first_report, punctual_report]]"
  have m2: "addToHistory (\<lambda>x. x) 1065000 1065000 punctual_report ?m1 = ?m2"
    by (simp add: addToHistory_def getHistory_def first_report_def punctual_report_def
        sample_aircraft_def HISTORY_RETENTION_MS_def HISTORY_MAX_SIZE_def Let_def)
  have d2: "List.map_filter (\<lambda>detector. detector ?m2 punctual_report) (detectors (\<lambda>x. x))
      = [anomaly_of punctual_report altitude_drop high]"
    by (simp add: map_filter_detectors detectEmergencySquawk_def detectAltitudeAnomaly_def
        detectHoldingPattern_def detectSpeedAnomaly_def detectGoAround_def getHistory_def
        first_report_def punctual_report_def sample_aircraft_def CRITICAL_VERTICAL_RATE_FPM_def
        RAPID_ALTITUDE_DROP_FT_PER_MIN_def Let_def)
  show ?thesis
    using m2 d2
    by (simp add: detectAnomalies_def poll_clock_def Let_def)
      (simp add: punctual_report_def sample_aircraft_def)
qed

subsection \<open>Holding pattern\<close>

lemma rounds_like_double_mono:
  "rounds_like_double rnd \<Longrightarrow> x \<le> y \<Longrightarrow> rnd x \<le> rnd y"
  by (simp add: rounds_like_double_def)

lemma rounds_like_double_int:
  "rounds_like_double rnd \<Longrightarrow> \<bar>k\<bar> \<le> 2 ^ 53 \<Longrightarrow> rnd (of_int k) = of_int k"
  by (simp add: rounds_like_double_def)

lemma rounds_like_double_consts:
  assumes "rounds_like_double rnd"
  shows "rnd 0 = 0" "rnd 180 = 180" "rnd (- 180) = - 180" "rnd 360 = 360" "rnd (- 360) = - 360"
    "rnd 20 = 20" "rnd (- 340) = - 340"
  using rounds_like_double_int [OF assms, of 0] rounds_like_double_int [OF assms, of 180]
    rounds_like_double_int [OF assms, of "- 180"] rounds_like_double_int [OF assms, of 360]
    rounds_like_double_int [OF assms, of "- 360"] rounds_like_double_int [OF assms, of 20]
    rounds_like_double_int [OF assms, of "- 340"]
  by simp_all

lemma headingChange_cases:
  "headingChange rnd l c =
    (if 180 < rnd (c - l) then
       (if rnd (rnd (c - l) - 360) < - 180 then rnd (rnd (rnd (c - l) - 360) + 360)
        else rnd (rnd (c - l) - 360))
     else if rnd (c - l) < - 180 then rnd (rnd (c - l) + 360)
     else rnd (c - l))"
  by (simp add: headingChange_def Let_def)

lemma headingChange_range:
  assumes r: "rounds_like_double rnd" and "0 \<le> l" "l \<le> 360" "0 \<le> c" "c \<le> 360"
  shows "- 180 \<le> headingChange rnd l c \<and> headingChange rnd l c \<le> 180
    \<and> headingChange rnd l c =
        (if 180 < rnd (c - l) then rnd (rnd (c - l) - 360)
         else if rnd (c - l) < - 180 then rnd (rnd (c - l) + 360)
         else rnd (c - l))"
proof -
  note k = rounds_like_double_consts [OF r]
  let ?h = "rnd (c - l)"
  have "- 360 \<le> c - l" "c - l \<le> 360"
    using assms by simp_all
  then have h: "- 360 \<le> ?h" "?h \<le> 360"
    using rounds_like_double_mono [OF r, of "- 360" "c - l"]
      rounds_like_double_mono [OF r, of "c - l" 360] k by simp_all
  show ?thesis
  proof (cases "180 < ?h")
    case True
    have "- 180 \<le> ?h - 360" "?h - 360 \<le> 0"
      using True h by simp_all
    then have "- 180 \<le> rnd (?h - 360)" "rnd (?h - 360) \<le> 0"
      using rounds_like_double_mono [OF r, of "- 180" "?h - 360"]
        rounds_like_double_mono [OF r, of "?h - 360" 0] k by simp_all
    then show ?thesis
      using True by (simp add: headingChange_cases)
  next
    case False
    show ?thesis
    proof (cases "?h < - 180")
      case True
      have "0 \<le> ?h + 360" "?h + 360 \<le> 180"
        using True h by simp_all
      then have "0 \<le> rnd (?h + 360)" "rnd (?h + 360) \<le> 180"
        using rounds_like_double_mono [OF r, of 0 "?h + 360"]
          rounds_like_double_mono [OF r, of "?h + 360" 180] k by simp_all
      then show ?thesis
        using True False by (simp add: headingChange_cases)
    next
      case nb: False
      then show ?thesis
        using False by (simp add: headingChange_cases)
    qed
  qed
qed

lemma heading_deltas_range:
  "rounds_like_double rnd \<Longrightarrow>
    list_all (\<lambda>h. case h of None \<Rightarrow> True | Some v \<Rightarrow> 0 \<le> v \<and> v \<le> 360) hs \<Longrightarrow>
    list_all (\<lambda>d. - 180 \<le> d \<and> d \<le> 180) (heading_deltas rnd hs)"
proof (induction rnd hs rule: heading_deltas.induct)
  case (1 rnd l c hs)
  then show ?case
    using headingChange_range [of rnd l c] by simp
qed simp_all

lemma holding_loop_deltas:
  "holding_loop rnd xs l0 t0 acc0 =
    (last (l0 # map true_track xs),
     t0 + length (filter (\<lambda>d. 30 < \<bar>d\<bar>) (heading_deltas rnd (l0 # map true_track xs))),
     foldl (\<lambda>s d. rnd (s + d)) acc0 (heading_deltas rnd (l0 # map true_track xs)))"
proof (induction xs arbitrary: l0 t0 acc0)
  case Nil
  then show ?case by simp
next
  case (Cons x xs)
  show ?case
  proof (cases l0)
    case None
    then show ?thesis
      using Cons [of "true_track x" t0 acc0] by (cases "true_track x") simp_all
  next
    case (Some l)
    then show ?thesis
    proof (cases "true_track x")
      case None
      then show ?thesis
        using Some Cons [of None t0 acc0] by simp
    next
      case (Some c)
      then show ?thesis
        using \<open>l0 = Some l\<close>
          Cons [of "Some c" "if 30 < \<bar>headingChange rnd l c\<bar> then t0 + 1 else t0"
            "rnd (acc0 + headingChange rnd l c)"]
        by (simp add: Let_def)
    qed
  qed
qed

lemma holding_loop_append:
  "holding_loop rnd (xs @ ys) l t acc =
    (case holding_loop rnd xs l t acc of (l', t', acc') \<Rightarrow> holding_loop rnd ys l' t' acc')"
  by (induction rnd xs l t acc rule: holding_loop.induct) (auto simp: Let_def split: option.splits)

lemma fst_holding_loop_snoc:
  "fst (holding_loop rnd (xs @ [x]) l t acc) = true_track x"
  by (induction rnd xs l t acc rule: holding_loop.induct) (auto simp: Let_def split: option.splits)

lemma detectHoldingPattern_deltas:
  "detectHoldingPattern rnd m a =
    (if length (getHistory m (icao24 a)) < 20 \<or> on_ground a then None
     else if 2 \<le> rnd (\<bar>foldl (\<lambda>s d. rnd (s + d)) 0
                        (heading_deltas rnd
                          (map true_track
                            (drop (length (getHistory m (icao24 a)) - 30)
                              (getHistory m (icao24 a)))))\<bar> / 360)
     then Some (anomaly_of a holding_pattern medium)
     else None)"
proof -
  let ?h = "getHistory m (icao24 a)"
  let ?r = "drop (length ?h - 30) ?h"
  show ?thesis
  proof (cases "length ?h < 20")
    case True
    then show ?thesis
      by (simp add: detectHoldingPattern_def Let_def)
  next
    case False
    then have "?r \<noteq> []"
      by auto
    then have "true_track (hd ?r) # map true_track (tl ?r) = map true_track ?r"
      by (cases ?r) simp_all
    then show ?thesis
      using False
      by (simp add: detectHoldingPattern_def Let_def holding_loop_deltas
          HOLDING_PATTERN_TURNS_def)
  qed
qed

text \<open>
  Claim C5, as stated: every heading delta is normalised into the half-open interval from
  \<open>-180\<close> (excluded) to \<open>180\<close> (included). From heading 180 to heading 0 the delta is
  \<open>-180\<close>: neither adjustment applies to it, and it is accumulated as it is. (All the
  numbers of this run are whole, so that the double arithmetic is exact.)
\<close>

theorem heading_delta_minus_180:
  "headingChange (\<lambda>x. x) 180 0 = - 180
   \<and> \<not> (- 180 < headingChange (\<lambda>x. x) 180 0 \<and> headingChange (\<lambda>x. x) 180 0 \<le> 180)
   \<and> holding_loop (\<lambda>x. x) [sample_aircraft\<lparr>true_track := Some 0\<rparr>] (Some 180) 0 0
       = (Some 0, 1, - 180)"
  by (simp add: headingChange_def sample_aircraft_def)

text \<open>
  Claim C5, amended. The loop of the detector accumulates exactly the heading deltas of
  its window: it adds, one after the other, the normalised delta of every pair of
  consecutive samples that both have a heading, counts those above 30 degrees as turns,
  and the detector decides on the sum. For headings between 0 and 360 every such delta
  is the rounded difference of the two headings, shifted once by 360 where it is above
  180 or below \<open>-180\<close>, and lies in the closed interval from \<open>-180\<close> to \<open>180\<close>. Where the
  three most recent headings of the window are 350, 10 and 30, the two deltas are \<open>+20\<close>
  and \<open>+20\<close>, added to what the loop had accumulated up to the sample with heading 350,
  and no turn is counted.
\<close>

theorem heading_delta_closed_interval:
  "(rounds_like_double rnd \<and> 0 \<le> l \<and> l \<le> 360 \<and> 0 \<le> c \<and> c \<le> 360 \<longrightarrow>
      - 180 \<le> headingChange rnd l c \<and> headingChange rnd l c \<le> 180
      \<and> headingChange rnd l c =
          (if 180 < rnd (c - l) then rnd (rnd (c - l) - 360)
           else if rnd (c - l) < - 180 then rnd (rnd (c - l) + 360)
           else rnd (c - l)))
   \<and> (rounds_like_double rnd
        \<and> list_all (\<lambda>h. case h of None \<Rightarrow> True | Some v \<Rightarrow> 0 \<le> v \<and> v \<le> 360)
            (l0 # map true_track xs) \<longrightarrow>
        list_all (\<lambda>d. - 180 \<le> d \<and> d \<le> 180) (heading_deltas rnd (l0 # map true_track xs)))
   \<and> holding_loop rnd xs l0 t0 acc0 =
        (last (l0 # map true_track xs),
         t0 + length (filter (\<lambda>d. 30 < \<bar>d\<bar>) (heading_deltas rnd (l0 # map true_track xs))),
         foldl (\<lambda>s d. rnd (s + d)) acc0 (heading_deltas rnd (l0 # map true_track xs)))
   \<and> detectHoldingPattern rnd m a =
        (if length (getHistory m (icao24 a)) < 20 \<or> on_ground a then None
         else if 2 \<le> rnd (\<bar>foldl (\<lambda>s d. rnd (s + d)) 0
                            (heading_deltas rnd
                              (map true_track
                                (drop (length (getHistory m (icao24 a)) - 30)
                                  (getHistory m (icao24 a)))))\<bar> / 360)
         then Some (anomaly_of a holding_pattern medium)
         else None)
   \<and> (rounds_like_double rnd
        \<and> true_track x = Some 350 \<and> true_track y = Some 10 \<and> true_track z = Some 30 \<longrightarrow>
        headingChange rnd 350 10 = 20 \<and> headingChange rnd 10 30 = 20
        \<and> holding_loop rnd (older @ [x, y, z]) l1 t1 acc1 =
           (case holding_loop rnd (older @ [x]) l1 t1 acc1 of
              (l', t', acc') \<Rightarrow> (Some 30, t', rnd (rnd (acc' + 20) + 20))))"
proof -
  have ex: "headingChange rnd 350 10 = 20" "headingChange rnd 10 30 = 20"
    if r: "rounds_like_double rnd"
    using rounds_like_double_consts [OF r] by (simp_all add: headingChange_def)
  have step: "holding_loop rnd (older @ [x, y, z]) l1 t1 acc1 =
           (case holding_loop rnd (older @ [x]) l1 t1 acc1 of
              (l', t', acc') \<Rightarrow> (Some 30, t', rnd (rnd (acc' + 20) + 20)))"
    if r: "rounds_like_double rnd"
      and tr: "true_track x = Some 350" "true_track y = Some 10" "true_track z = Some 30"
  proof -
    obtain l' t' acc' where res: "holding_loop rnd (older @ [x]) l1 t1 acc1 = (l', t', acc')"
      by (cases "holding_loop rnd (older @ [x]) l1 t1 acc1") auto
    have "l' = Some 350"
      using fst_holding_loop_snoc [of rnd older x l1 t1 acc1] res tr by simp
    moreover have "holding_loop rnd (older @ [x, y, z]) l1 t1 acc1
        = holding_loop rnd [y, z] l' t' acc'"
      using holding_loop_append [of rnd "older @ [x]" "[y, z]" l1 t1 acc1] res by simp
    ultimately show ?thesis
      using res tr ex [OF r] by (simp add: Let_def)
  qed
  show ?thesis
    using headingChange_range [of rnd l c] heading_deltas_range [of rnd "l0 # map true_track xs"]
      holding_loop_deltas [of rnd xs l0 t0 acc0] detectHoldingPattern_deltas [of rnd m a]
      ex step
    by blast
qed

theorem heading_delta_closed_interval_witness:
  "rounds_like_double (\<lambda>x. x)
   \<and> - 180 \<le> headingChange (\<lambda>x. x) 350 10 \<and> headingChange (\<lambda>x. x) 350 10 \<le> 180
   \<and> headingChange (\<lambda>x. x) 350 10 = 20
   \<and> heading_deltas (\<lambda>x. x) [Some 350, Some 10, Some 30] = [20, 20]
   \<and> holding_loop (\<lambda>x. x)
        [sample_aircraft\<lparr>true_track := Some 10\<rparr>, sample_aircraft\<lparr>true_track := Some 30\<rparr>]
        (Some 350) 0 0 = (Some 30, 0, 40)
   \<and> holding_loop (\<lambda>x. x)
        [sample_aircraft\<lparr>true_track := Some 350\<rparr>, sample_aircraft\<lparr>true_track := Some 10\<rparr>,
         sample_aircraft\<lparr>true_track := Some 30\<rparr>] None 0 0 = (Some 30, 0, 40)"
proof -
  have r: "rounds_like_double (\<lambda>x. x)"
    by (simp add: rounds_like_double_def)
  have d: "heading_deltas (\<lambda>x. x) [Some 350, Some 10, Some 30] = [20, 20]"
    by (simp add: headingChange_def)
  show ?thesis
    using r d
      heading_delta_closed_interval [of "\<lambda>x. x" 350 10 "Some 350"
        "[sample_aircraft\<lparr>true_track := Some 10\<rparr>, sample_aircraft\<lparr>true_track := Some 30\<rparr>]"
        0 0 Map.empty sample_aircraft
        "sample_aircraft\<lparr>true_track := Some 350\<rparr>"
        "sample_aircraft\<lparr>true_track := Some 10\<rparr>" "sample_aircraft\<lparr>true_track := Some 30\<rparr>"
        "[]" None 0 0]
    by (simp add: sample_aircraft_def)
qed

section \<open>Properties of the batch and of the statistics\<close>

lemma insert_by_insort_key:
  "insert_by (\<lambda>a b. f a - f b) x ys = insort_key f x ys"
  for f :: "'a \<Rightarrow> int"
  by (induction ys) auto

lemma array_sort_sort_key:
  "array_sort (\<lambda>a b. f a - f b) xs = sort_key f xs"
  for f :: "'a \<Rightarrow> int"
  by (induction xs) (simp_all add: array_sort_def insert_by_insort_key)

lemma severityOrder_inj: "(severityOrder a = severityOrder b) = (a = b)"
  by (cases a; cases b) (simp_all add: severityOrder_def)

lemma detect_each_Cons:
  "fst (detect_each rnd clk (ac # acs) s) =
     fst (detectAnomalies rnd clk ac s)
       @ fst (detect_each rnd clk acs (snd (detectAnomalies rnd clk ac s)))"
  "snd (detect_each rnd clk (ac # acs) s) =
     snd (detect_each rnd clk acs (snd (detectAnomalies rnd clk ac s)))"
  by (simp_all split: prod.splits)

lemma detectAnomaliesBatch_sort_key:
  "fst (detectAnomaliesBatch rnd clk acs s) =
     sort_key (\<lambda>x. severityOrder (a_severity x)) (fst (detect_each rnd clk acs s))"
  "snd (detectAnomaliesBatch rnd clk acs s) = snd (detect_each rnd clk acs s)"
  by (simp_all add: detectAnomaliesBatch_def array_sort_sort_key split: prod.splits)

lemma filter_severity_sort_key:
  "filter (\<lambda>x. a_severity x = sev) (sort_key (\<lambda>x. severityOrder (a_severity x)) xs)
    = filter (\<lambda>x. a_severity x = sev) xs"
  using sort_key_stable [of "\<lambda>x. severityOrder (a_severity x)" "severityOrder sev" xs]
  by (simp add: severityOrder_inj)

text \<open>
  Claim C9. The batch of no aircraft is empty. The batch of an aircraft followed by
  others returns the anomalies that \<^verbatim>\<open>detectAnomalies\<close> emits for the first aircraft
  together with those of the batch of the others, run from the state the first pass
  leaves: the same anomalies with the same multiplicities, and within any one severity
  those of the first aircraft first, each group in its own order. The output is in
  ascending order of \<open>severityOrder\<close>, that is critical, high, medium, low.
\<close>

theorem detectAnomaliesBatch_sorted_stable:
  "sorted (map (\<lambda>x. severityOrder (a_severity x)) (fst (detectAnomaliesBatch rnd clk acs s)))
   \<and> severityOrder critical < severityOrder high
   \<and> severityOrder high < severityOrder medium
   \<and> severityOrder medium < severityOrder low
   \<and> detectAnomaliesBatch rnd clk [] s = ([], s)
   \<and> mset (fst (detectAnomaliesBatch rnd clk (ac # acs) s)) =
       mset (fst (detectAnomalies rnd clk ac s))
       + mset (fst (detectAnomaliesBatch rnd clk acs (snd (detectAnomalies rnd clk ac s))))
   \<and> (\<forall>sev. filter (\<lambda>x. a_severity x = sev) (fst (detectAnomaliesBatch rnd clk (ac # acs) s))
             = filter (\<lambda>x. a_severity x = sev) (fst (detectAnomalies rnd clk ac s))
               @ filter (\<lambda>x. a_severity x = sev)
                   (fst (detectAnomaliesBatch rnd clk acs (snd (detectAnomalies rnd clk ac s)))))
   \<and> snd (detectAnomaliesBatch rnd clk (ac # acs) s) =
       snd (detectAnomaliesBatch rnd clk acs (snd (detectAnomalies rnd clk ac s)))"
proof -
  have srt: "sorted (map (\<lambda>x. severityOrder (a_severity x))
                (fst (detectAnomaliesBatch rnd clk acs s)))"
    by (simp add: detectAnomaliesBatch_sort_key)
  have ord: "severityOrder critical < severityOrder high"
    "severityOrder high < severityOrder medium" "severityOrder medium < severityOrder low"
    by (simp_all add: severityOrder_def)
  have nil: "detectAnomaliesBatch rnd clk [] s = ([], s)"
    by (simp add: detectAnomaliesBatch_def array_sort_def)
  have ms: "mset (fst (detectAnomaliesBatch rnd clk (ac # acs) s)) =
       mset (fst (detectAnomalies rnd clk ac s))
       + mset (fst (detectAnomaliesBatch rnd clk acs (snd (detectAnomalies rnd clk ac s))))"
    by (simp add: detectAnomaliesBatch_sort_key detect_each_Cons del: detect_each.simps)
  have fl: "filter (\<lambda>x. a_severity x = sev) (fst (detectAnomaliesBatch rnd clk (ac # acs) s))
             = filter (\<lambda>x. a_severity x = sev) (fst (detectAnomalies rnd clk ac s))
               @ filter (\<lambda>x. a_severity x = sev)
                   (fst (detectAnomaliesBatch rnd clk acs (snd (detectAnomalies rnd clk ac s))))"
    for sev
    by (simp add: detectAnomaliesBatch_sort_key filter_severity_sort_key detect_each_Cons
        del: detect_each.simps)
  have st: "snd (detectAnomaliesBatch rnd clk (ac # acs) s) =
       snd (detectAnomaliesBatch rnd clk acs (snd (detectAnomalies rnd clk ac s)))"
    by (simp add: detectAnomaliesBatch_sort_key detect_each_Cons del: detect_each.simps)
  show ?thesis
    using srt ord nil ms fl st by blast
qed

text \<open>
  A batch of two: the fast aircraft comes first and gives a medium anomaly, the aircraft
  squawking 7700 comes second and gives a critical one, which the batch returns first.
\<close>

lemma detectAnomaliesBatch_reorders:
  "map (\<lambda>x. (flight_icao24 x, a_type x, a_severity x))
     (fst (detectAnomaliesBatch (\<lambda>x. x) (\<lambda>n. 0) [fast_aircraft, mayday_aircraft] fresh_start))
    = [(''e3e57a'', emergency_squawk, critical), (''fa57aa'', unusual_speed, medium)]"
proof -
  let ?m1 = "addToHistory (\<lambda>x. x) 0 0 fast_aircraft Map.empty"
  let ?m2 = "addToHistory (\<lambda>x. x) 0 0 mayday_aircraft ?m1"
  have l1: "length (getHistory ?m1 (icao24 fast_aircraft)) \<le> 1"
    using length_getHistory_addToHistory [of "\<lambda>x. x" 0 0 fast_aircraft Map.empty]
    by (simp add: getHistory_def)
  have "icao24 mayday_aircraft \<noteq> icao24 fast_aircraft"
    by (simp add: fast_aircraft_def mayday_aircraft_def)
  then have "getHistory ?m1 (icao24 mayday_aircraft) = getHistory Map.empty (icao24 mayday_aircraft)"
    by (rule getHistory_addToHistory_other)
  then have "getHistory ?m1 (icao24 mayday_aircraft) = []"
    by (simp add: getHistory_def)
  then have l2: "length (getHistory ?m2 (icao24 mayday_aircraft)) \<le> 1"
    using length_getHistory_addToHistory [of "\<lambda>x. x" 0 0 mayday_aircraft ?m1] by simp
  have d1: "List.map_filter (\<lambda>detector. detector ?m1 fast_aircraft) (detectors (\<lambda>x. x))
      = [anomaly_of fast_aircraft unusual_speed medium]"
    using l1
    by (simp add: map_filter_detectors detectEmergencySquawk_def detectAltitudeAnomaly_def
        detectHoldingPattern_def detectSpeedAnomaly_def detectGoAround_def
        fast_aircraft_def sample_aircraft_def UNUSUALLY_FAST_KTS_def Let_def)
  have d2: "List.map_filter (\<lambda>detector. detector ?m2 mayday_aircraft) (detectors (\<lambda>x. x))
      = [anomaly_of mayday_aircraft emergency_squawk critical]"
    using l2
    by (simp add: map_filter_detectors detectEmergencySquawk_def detectAltitudeAnomaly_def
        detectHoldingPattern_def detectSpeedAnomaly_def detectGoAround_def
        property_read_def EMERGENCY_SQUAWKS_def mayday_aircraft_def sample_aircraft_def Let_def)
  have p1: "detectAnomalies (\<lambda>x. x) (\<lambda>n. 0) fast_aircraft fresh_start
      = ([anomaly_of fast_aircraft unusual_speed medium], \<lparr>aircraftHistory = ?m1, ticks = 2\<rparr>)"
    using d1 by (simp add: detectAnomalies_def fresh_start_def Let_def)
      (simp add: fast_aircraft_def sample_aircraft_def)
  have p2: "detectAnomalies (\<lambda>x. x) (\<lambda>n. 0) mayday_aircraft \<lparr>aircraftHistory = ?m1, ticks = 2\<rparr>
      = ([anomaly_of mayday_aircraft emergency_squawk critical],
         \<lparr>aircraftHistory = ?m2, ticks = 4\<rparr>)"
    using d2 by (simp add: detectAnomalies_def Let_def)
      (simp add: mayday_aircraft_def sample_aircraft_def)
  have "fst (detectAnomaliesBatch (\<lambda>x. x) (\<lambda>n. 0) [fast_aircraft, mayday_aircraft] fresh_start)
      = [anomaly_of mayday_aircraft emergency_squawk critical,
         anomaly_of fast_aircraft unusual_speed medium]"
    by (simp add: detectAnomaliesBatch_def p1 p2 array_sort_def severityOrder_def)
  then show ?thesis
    by (simp add: anomaly_of_def fast_aircraft_def mayday_aircraft_def sample_aircraft_def)
qed

subsection \<open>Statistics\<close>

lemma type_key_inj: "(type_key a = type_key b) = (a = b)"
  by (cases a; cases b) simp_all

lemma fst_stats_loop:
  "fst (stats_loop xs (st, bt)) k =
    (case st k of None \<Rightarrow> None
     | Some n \<Rightarrow> Some (n + length (filter (\<lambda>x. severity_key (a_severity x) = k) xs)))"
  by (induction xs arbitrary: st bt) (auto simp: increment_def split: option.splits)

lemma snd_stats_loop:
  "snd (stats_loop xs (st, bt)) k =
    (if filter (\<lambda>x. type_key (a_type x) = k) xs = [] then bt k
     else Some ((case bt k of None \<Rightarrow> 0 | Some n \<Rightarrow> n)
                 + length (filter (\<lambda>x. type_key (a_type x) = k) xs)))"
  by (induction xs arbitrary: st bt) (auto simp: count_type_def split: option.splits)

lemma type_key_not_stats:
  "type_key t \<noteq> ''total''" "type_key t \<noteq> ''critical''" "type_key t \<noteq> ''high''"
  "type_key t \<noteq> ''medium''" "type_key t \<noteq> ''low''"
  by (cases t; simp)+

lemma severity_key_eq:
  "(severity_key s = ''critical'') = (s = critical)" "(severity_key s = ''high'') = (s = high)"
  "(severity_key s = ''medium'') = (s = medium)" "(severity_key s = ''low'') = (s = low)"
  "severity_key s \<noteq> ''total''"
  by (cases s; simp)+

lemma severity_split:
  "length (filter (\<lambda>x. a_severity x = critical) xs)
   + length (filter (\<lambda>x. a_severity x = high) xs)
   + length (filter (\<lambda>x. a_severity x = medium) xs)
   + length (filter (\<lambda>x. a_severity x = low) xs)
   = length xs"
proof (induction xs)
  case Nil
  then show ?case by simp
next
  case (Cons x xs)
  then show ?case by (cases "a_severity x") simp_all
qed

lemma stats_initial_type_key:
  "[''total'' \<mapsto> n, ''critical'' \<mapsto> 0, ''high'' \<mapsto> 0, ''medium'' \<mapsto> 0,
    ''low'' \<mapsto> (0::nat)] (type_key t) = None"
  by (cases t) simp_all

lemma getAnomalyStats_lookup:
  "getAnomalyStats xs k =
    (case snd (stats_loop xs ([''total'' \<mapsto> length xs, ''critical'' \<mapsto> 0, ''high'' \<mapsto> 0,
                   ''medium'' \<mapsto> 0, ''low'' \<mapsto> 0], Map.empty)) k of
       None \<Rightarrow> fst (stats_loop xs ([''total'' \<mapsto> length xs, ''critical'' \<mapsto> 0,
                   ''high'' \<mapsto> 0, ''medium'' \<mapsto> 0, ''low'' \<mapsto> 0], Map.empty)) k
     | Some v \<Rightarrow> Some v)"
  by (simp add: getAnomalyStats_def map_add_def case_prod_beta Let_def)

text \<open>
  Claim C10. In the record \<^verbatim>\<open>getAnomalyStats\<close> returns, \<open>total\<close> is the length of the
  list; \<open>critical\<close>, \<open>high\<close>, \<open>medium\<close> and \<open>low\<close> are the numbers of anomalies of each
  severity, which sum to the total; and the key of an anomaly type holds the number of
  anomalies of that type (a type that does not occur has no key).
\<close>

theorem getAnomalyStats_counts:
  "getAnomalyStats xs ''total'' = Some (length xs)
   \<and> getAnomalyStats xs ''critical'' = Some (length (filter (\<lambda>x. a_severity x = critical) xs))
   \<and> getAnomalyStats xs ''high'' = Some (length (filter (\<lambda>x. a_severity x = high) xs))
   \<and> getAnomalyStats xs ''medium'' = Some (length (filter (\<lambda>x. a_severity x = medium) xs))
   \<and> getAnomalyStats xs ''low'' = Some (length (filter (\<lambda>x. a_severity x = low) xs))
   \<and> length (filter (\<lambda>x. a_severity x = critical) xs)
       + length (filter (\<lambda>x. a_severity x = high) xs)
       + length (filter (\<lambda>x. a_severity x = medium) xs)
       + length (filter (\<lambda>x. a_severity x = low) xs) = length xs
   \<and> (\<forall>t. getAnomalyStats xs (type_key t) =
          (if filter (\<lambda>x. a_type x = t) xs = [] then None
           else Some (length (filter (\<lambda>x. a_type x = t) xs))))"
proof -
  have total: "getAnomalyStats xs ''total'' = Some (length xs)"
    by (simp add: getAnomalyStats_lookup snd_stats_loop fst_stats_loop type_key_not_stats
        severity_key_eq)
  have crit:
    "getAnomalyStats xs ''critical'' = Some (length (filter (\<lambda>x. a_severity x = critical) xs))"
    by (simp add: getAnomalyStats_lookup snd_stats_loop fst_stats_loop type_key_not_stats
        severity_key_eq)
  have hi: "getAnomalyStats xs ''high'' = Some (length (filter (\<lambda>x. a_severity x = high) xs))"
    by (simp add: getAnomalyStats_lookup snd_stats_loop fst_stats_loop type_key_not_stats
        severity_key_eq)
  have med:
    "getAnomalyStats xs ''medium'' = Some (length (filter (\<lambda>x. a_severity x = medium) xs))"
    by (simp add: getAnomalyStats_lookup snd_stats_loop fst_stats_loop type_key_not_stats
        severity_key_eq)
  have lo: "getAnomalyStats xs ''low'' = Some (length (filter (\<lambda>x. a_severity x = low) xs))"
    by (simp add: getAnomalyStats_lookup snd_stats_loop fst_stats_loop type_key_not_stats
        severity_key_eq)
  have ty: "getAnomalyStats xs (type_key t) =
          (if filter (\<lambda>x. a_type x = t) xs = [] then None
           else Some (length (filter (\<lambda>x. a_type x = t) xs)))" for t
    unfolding getAnomalyStats_lookup snd_stats_loop fst_stats_loop stats_initial_type_key
    by (simp add: type_key_inj)
  show ?thesis
    using total crit hi med lo ty severity_split [of xs] by simp
qed

section \<open>Properties of the upstream client\<close>

subsection \<open>State vector normalizer\<close>

text \<open>
  Claim C1, as stated: a record whose field count or field types do not match the schema
  makes the parse fail. The empty record, and a record of 18 fields whose first field is
  a number, are both parsed into an object without any failure: the fields are whatever
  the positions hold, \<^verbatim>\<open>undefined\<close> where the record has no such position.
\<close>

theorem parseStateVector_accepts_malformed:
  "\<not> schema_ok [] \<and> parseStateVector [] = Inr (positional [] JNull)
   \<and> r_icao24 (positional [] JNull) = JUndefined
   \<and> as_aircraft (positional [] JNull) = None
   \<and> length (sample_state[0 := JNum 7]) = 18 \<and> \<not> schema_ok (sample_state[0 := JNum 7])
   \<and> (\<exists>r. parseStateVector (sample_state[0 := JNum 7]) = Inr r \<and> r_icao24 r = JNum 7)"
  by (simp add: schema_ok_def parseStateVector_def element_def positional_def as_aircraft_def
      well_typed_def sample_state_def)

lemma element_nth: "i < length state \<Longrightarrow> element state i = state ! i"
  by (simp add: element_def)

lemma nullable_is_str_cases:
  "nullable is_str v \<Longrightarrow> v = JNull \<or> (\<exists>s. v = JStr s)"
  by (cases v) (simp_all add: nullable_def)

lemma nullable_simps:
  "nullable p JNull" "nullable is_str (JStr s)" "nullable is_num (JNum n)"
  by (simp_all add: nullable_def)

text \<open>
  Claim C1, amended. \<^verbatim>\<open>parseStateVector\<close> validates nothing: it fails only when the
  callsign position holds a truthy value that is not a string, with a \<^verbatim>\<open>TypeError\<close>, and
  otherwise returns the object of the positional values, whatever they are. For every
  record that matches the 18-field schema it returns the corresponding aircraft state,
  with the callsign trimmed, and \<^verbatim>\<open>null\<close> for a null or empty callsign.
\<close>

theorem parseStateVector_unvalidated:
  "(parseStateVector state = Inl TypeError)
      = (truthy (element state 1) \<and> \<not> is_str (element state 1))
   \<and> (\<not> (truthy (element state 1) \<and> \<not> is_str (element state 1)) \<longrightarrow>
        parseStateVector state =
          Inr (positional state
                (if truthy (element state 1) then JStr (trim (str_of (element state 1)))
                 else JNull)))
   \<and> (schema_ok state \<longrightarrow>
        (\<exists>a. map_sum id as_aircraft (parseStateVector state) = Inr (Some a)
          \<and> icao24 a = str_of (state ! 0)
          \<and> callsign a = (case state ! 1 of
                             JStr c \<Rightarrow> if c = [] then None else Some (trim c)
                           | _ \<Rightarrow> None)
          \<and> origin_country a = str_of (state ! 2)
          \<and> time_position a = opt_num (state ! 3)
          \<and> last_contact a = num_of (state ! 4)
          \<and> longitude a = opt_num (state ! 5)
          \<and> latitude a = opt_num (state ! 6)
          \<and> baro_altitude a = opt_num (state ! 7)
          \<and> on_ground a = bool_of (state ! 8)
          \<and> velocity a = opt_num (state ! 9)
          \<and> true_track a = opt_num (state ! 10)
          \<and> vertical_rate a = opt_num (state ! 11)
          \<and> geo_altitude a = opt_num (state ! 13)
          \<and> squawk a = opt_str (state ! 14)
          \<and> spi a = bool_of (state ! 15)
          \<and> position_source a = num_of (state ! 16)
          \<and> category a = opt_num (state ! 17)))"
proof -
  have a: "(parseStateVector state = Inl TypeError)
      = (truthy (element state 1) \<and> \<not> is_str (element state 1))"
    by (cases "element state 1") (simp_all add: parseStateVector_def)
  have b: "parseStateVector state =
          Inr (positional state
                (if truthy (element state 1) then JStr (trim (str_of (element state 1)))
                 else JNull))"
    if "\<not> (truthy (element state 1) \<and> \<not> is_str (element state 1))"
    using that by (cases "element state 1") (simp_all add: parseStateVector_def)
  have c: "\<exists>a. map_sum id as_aircraft (parseStateVector state) = Inr (Some a)
          \<and> icao24 a = str_of (state ! 0)
          \<and> callsign a = (case state ! 1 of
                             JStr c \<Rightarrow> if c = [] then None else Some (trim c)
                           | _ \<Rightarrow> None)
          \<and> origin_country a = str_of (state ! 2)
          \<and> time_position a = opt_num (state ! 3)
          \<and> last_contact a = num_of (state ! 4)
          \<and> longitude a = opt_num (state ! 5)
          \<and> latitude a = opt_num (state ! 6)
          \<and> baro_altitude a = opt_num (state ! 7)
          \<and> on_ground a = bool_of (state ! 8)
          \<and> velocity a = opt_num (state ! 9)
          \<and> true_track a = opt_num (state ! 10)
          \<and> vertical_rate a = opt_num (state ! 11)
          \<and> geo_altitude a = opt_num (state ! 13)
          \<and> squawk a = opt_str (state ! 14)
          \<and> spi a = bool_of (state ! 15)
          \<and> position_source a = num_of (state ! 16)
          \<and> category a = opt_num (state ! 17)"
    if ok: "schema_ok state"
  proof -
    have len: "length state = 18" using ok by (simp add: schema_ok_def)
    have el: "element state i = state ! i" if "i < 18" for i
      using that len by (simp add: element_def)
    have cs: "state ! 1 = JNull \<or> (\<exists>s. state ! 1 = JStr s)"
      using ok nullable_is_str_cases by (simp add: schema_ok_def)
    let ?cs = "if truthy (state ! 1) then JStr (trim (str_of (state ! 1))) else JNull"
    have p: "parseStateVector state = Inr (positional state ?cs)"
      using cs by (auto simp: parseStateVector_def el)
    have cs_ok: "nullable is_str ?cs"
      by (simp add: nullable_simps)
    have wt: "well_typed (positional state ?cs)"
      unfolding well_typed_def positional_def using ok cs_ok
      by (simp add: schema_ok_def el)
    have cs_val: "opt_str ?cs = (case state ! 1 of
                             JStr c \<Rightarrow> if c = [] then None else Some (trim c)
                           | _ \<Rightarrow> None)"
      using cs by auto
    show ?thesis
      unfolding p using wt cs_val
      by (simp add: as_aircraft_def positional_def el)
  qed
  show ?thesis
    using a b c by blast
qed

theorem parseStateVector_unvalidated_witness:
  "schema_ok sample_state
   \<and> (\<exists>a. map_sum id as_aircraft (parseStateVector sample_state) = Inr (Some a)
        \<and> icao24 a = ''3c6444'' \<and> callsign a = Some ''DLH9KC'' \<and> latitude a = Some 50
        \<and> squawk a = Some ''1000'' \<and> category a = None)"
proof -
  have ok: "schema_ok sample_state"
    by (simp add: schema_ok_def sample_state_def nullable_def)
  have tr: "trim ''DLH9KC  '' = ''DLH9KC''"
    by (simp add: trim_def white_space_def)
  have "\<exists>a. map_sum id as_aircraft (parseStateVector sample_state) = Inr (Some a)
        \<and> icao24 a = str_of (sample_state ! 0)
        \<and> callsign a = (case sample_state ! 1 of
                           JStr c \<Rightarrow> if c = [] then None else Some (trim c)
                         | _ \<Rightarrow> None)
        \<and> latitude a = opt_num (sample_state ! 6)
        \<and> squawk a = opt_str (sample_state ! 14)
        \<and> category a = opt_num (sample_state ! 17)"
    using parseStateVector_unvalidated [of sample_state] ok by blast
  then obtain a where a: "map_sum id as_aircraft (parseStateVector sample_state) = Inr (Some a)"
    "icao24 a = str_of (sample_state ! 0)"
    "callsign a = (case sample_state ! 1 of
                           JStr c \<Rightarrow> if c = [] then None else Some (trim c)
                         | _ \<Rightarrow> None)"
    "latitude a = opt_num (sample_state ! 6)"
    "squawk a = opt_str (sample_state ! 14)"
    "category a = opt_num (sample_state ! 17)"
    by blast
  have "icao24 a = ''3c6444''" "callsign a = Some ''DLH9KC''" "latitude a = Some 50"
    "squawk a = Some ''1000''" "category a = None"
    using a(2-6) tr by (simp_all add: sample_state_def)
  then show ?thesis
    using ok a(1) by blast
qed

subsection \<open>Backoff\<close>

lemma getCached_entry:
  "getCached now cache key =
    (case cache key of
       None \<Rightarrow> None
     | Some entry \<Rightarrow>
         if now - timestamp entry < 15000 then Some (data entry, True)
         else if now - timestamp entry < 300000 then Some (data entry, False)
         else None)"
  by (simp add: getCached_def CACHE_TTL_MS_def STALE_TTL_MS_def Let_def split: option.splits)

lemma fallback_getCached:
  "fallback (getCached now cache key) =
    (case cache key of
       None \<Rightarrow> []
     | Some entry \<Rightarrow> if now - timestamp entry < 300000 then data entry else [])"
  by (simp add: getCached_entry fallback_def split: option.splits)

lemma is_fresh_getCached:
  "is_fresh (getCached now cache key) =
    (case cache key of None \<Rightarrow> False | Some entry \<Rightarrow> now - timestamp entry < 15000)"
  by (simp add: getCached_entry is_fresh_def split: option.splits)

lemma getAllStates_try_429:
  "getAllStates_try now cached (Response 429 b) s =
     (Inr (case cached of None \<Rightarrow> [] | Some (d, fresh) \<Rightarrow> d),
      s\<lparr>backoffUntil := now + 60 * 1000\<rparr>)"
  by (simp add: getAllStates_try_def BACKOFF_SECONDS_def fallback_def)

lemma getAllStates_throttled:
  assumes "\<not> t2 < backoffUntil s"
    and "case responseCache s ''all_states'' of
           None \<Rightarrow> True | Some entry \<Rightarrow> \<not> t1 - timestamp entry < 15000"
    and "''all_states'' \<notin> inflightRequests s"
  shows "getAllStates t1 t2 t3 (Response 429 b) s =
      (Some (case responseCache s ''all_states'' of
               None \<Rightarrow> []
             | Some entry \<Rightarrow> if t1 - timestamp entry < 300000 then data entry else []),
       True, s\<lparr>backoffUntil := t3 + 60 * 1000\<rparr>)"
proof -
  have nf: "\<not> is_fresh (getCached t1 (responseCache s) ''all_states'')"
    using assms(2) by (simp add: is_fresh_getCached split: option.splits)
  have issue: "getAllStates_issue t1 t2 s =
      (Started (getCached t1 (responseCache s) ''all_states''),
       s\<lparr>inflightRequests := insert ''all_states'' (inflightRequests s)\<rparr>)"
    using assms(1,3) nf by (simp add: getAllStates_issue_def Let_def)
  have "insert ''all_states'' (inflightRequests s) - {''all_states''} = inflightRequests s"
    using assms(3) by auto
  then have settle: "getAllStates_settle t3 (getCached t1 (responseCache s) ''all_states'')
        (Response 429 b) (s\<lparr>inflightRequests := insert ''all_states'' (inflightRequests s)\<rparr>)
      = (fallback (getCached t1 (responseCache s) ''all_states''),
         s\<lparr>backoffUntil := t3 + 60 * 1000\<rparr>)"
    by (simp add: getAllStates_settle_def getAllStates_try_def BACKOFF_SECONDS_def)
  show ?thesis
    by (simp add: getAllStates_def issue settle fallback_getCached)
qed

lemma getAllStates_suppressed:
  "now2 < backoffUntil s \<Longrightarrow>
    getAllStates now1 now2 now up s =
      (Some (case responseCache s ''all_states'' of
               None \<Rightarrow> []
             | Some entry \<Rightarrow> if now1 - timestamp entry < 300000 then data entry else []),
       False, s)"
  by (simp add: getAllStates_def getAllStates_issue_def Let_def fallback_getCached)

lemma getAllStates_reaches_network:
  "\<not> now2 < backoffUntil s \<Longrightarrow>
    (case responseCache s ''all_states'' of
       None \<Rightarrow> True | Some entry \<Rightarrow> \<not> now1 - timestamp entry < 15000)
    \<Longrightarrow> ''all_states'' \<notin> inflightRequests s
    \<Longrightarrow> fst (snd (getAllStates now1 now2 now up s))"
  by (simp add: getAllStates_def getAllStates_issue_def Let_def is_fresh_getCached
      split: prod.splits option.splits)

text \<open>
  Claim C7. A 429 answer is not an exception, even inside the \<^verbatim>\<open>try\<close> block: a call
  that meets it sets the cooldown deadline 60 s after the clock reading of its handler
  and resolves to the data of the cache entry if that entry is less than 300 s old (fresh
  or stale) at the reading of the lookup, else to the empty list. A call whose backoff
  test reads a time \<open>before\<close> the deadline makes no network request, leaves the state as
  it is, and returns the data of the entry if it is less than 300 s old, else the empty
  list. A call whose test reads a time \<open>after\<close> the deadline, with no entry less than 15 s
  old and no request in flight, makes a network request.
\<close>

theorem getAllStates_backoff:
  "getAllStates_try now cached (Response 429 b) s
      = (Inr (case cached of None \<Rightarrow> [] | Some (d, fresh) \<Rightarrow> d),
         s\<lparr>backoffUntil := now + 60 * 1000\<rparr>)
   \<and> (\<not> t2 < backoffUntil s
        \<and> (case responseCache s ''all_states'' of
              None \<Rightarrow> True | Some entry \<Rightarrow> \<not> t1 - timestamp entry < 15000)
        \<and> ''all_states'' \<notin> inflightRequests s \<longrightarrow>
        getAllStates t1 t2 t3 (Response 429 b') s =
          (Some (case responseCache s ''all_states'' of
                   None \<Rightarrow> []
                 | Some entry \<Rightarrow> if t1 - timestamp entry < 300000 then data entry else []),
           True, s\<lparr>backoffUntil := t3 + 60 * 1000\<rparr>))
   \<and> (before < backoffUntil s \<longrightarrow>
        getAllStates now1 before now3 up s =
          (Some (case responseCache s ''all_states'' of
                   None \<Rightarrow> []
                 | Some entry \<Rightarrow> if now1 - timestamp entry < 300000 then data entry else []),
           False, s))
   \<and> (\<not> after < backoffUntil s
        \<and> (case responseCache s ''all_states'' of
              None \<Rightarrow> True | Some entry \<Rightarrow> \<not> now1' - timestamp entry < 15000)
        \<and> ''all_states'' \<notin> inflightRequests s \<longrightarrow>
        fst (snd (getAllStates now1' after now3' up' s)))"
  using getAllStates_try_429 [of now cached b s] getAllStates_throttled [of t2 s t1 t3 b']
    getAllStates_suppressed [of before s now1 now3 up]
    getAllStates_reaches_network [of "after" s now1' now3' up']
  by blast

theorem getAllStates_backoff_witness:
  "getAllStates 200000 200000 200100 (Response 429 InvalidJson) stale_entry_state
      = (Some [positional sample_state JNull], True, throttled_state)
   \<and> 250000 < backoffUntil throttled_state
   \<and> getAllStates 250000 250000 250100 (Response 200 (Body None)) throttled_state
      = (Some [positional sample_state JNull], False, throttled_state)
   \<and> 450000 < backoffUntil throttled_late_state
   \<and> getAllStates 450000 450000 450100 (Response 200 (Body None)) throttled_late_state
      = (Some [], False, throttled_late_state)
   \<and> \<not> 270000 < backoffUntil throttled_state
   \<and> fst (snd (getAllStates 270000 270000 270100 (Response 200 (Body None)) throttled_state))"
proof -
  have first: "getAllStates 200000 200000 200100 (Response 429 InvalidJson) stale_entry_state
      = (Some [positional sample_state JNull], True, throttled_state)"
    using getAllStates_backoff [of 0 None InvalidJson stale_entry_state 200000 200000 200100
        InvalidJson]
    by (simp add: stale_entry_state_def throttled_state_def)
  have early: "250000 < backoffUntil throttled_state
      \<and> getAllStates 250000 250000 250100 (Response 200 (Body None)) throttled_state
          = (Some [positional sample_state JNull], False, throttled_state)
      \<and> \<not> 270000 < backoffUntil throttled_state
      \<and> fst (snd (getAllStates 270000 270000 270100 (Response 200 (Body None))
                    throttled_state))"
    using getAllStates_backoff [of 0 None InvalidJson throttled_state 270000 270000 270100
        InvalidJson 250000 250000 250100 "Response 200 (Body None)" 270000 270000 270100
        "Response 200 (Body None)"]
    by (simp add: stale_entry_state_def throttled_state_def)
  have expired: "450000 < backoffUntil throttled_late_state
      \<and> getAllStates 450000 450000 450100 (Response 200 (Body None)) throttled_late_state
          = (Some [], False, throttled_late_state)"
    using getAllStates_backoff [of 0 None InvalidJson throttled_late_state 0 0 0
        InvalidJson 450000 450000 450100 "Response 200 (Body None)"]
    by (simp add: stale_entry_state_def throttled_late_state_def)
  show ?thesis
    using first early expired by blast
qed

subsection \<open>\<^verbatim>\<open>getStatesByIcao24\<close> and the success path\<close>

lemma parse_sample_state:
  "parse_all [sample_state] = Inr [positional sample_state (JStr ''DLH9KC'')]"
  by (simp add: parseStateVector_def element_def sample_state_def trim_def white_space_def)

text \<open>
  With the binding absent, every path of the \<^verbatim>\<open>try\<close> block that gets a response ends
  in an exception, and a call changes nothing: no cache entry, no cooldown.
\<close>

lemma getStatesByIcao24_try_without_binding:
  "consecutiveFailures s = None \<Longrightarrow>
     \<exists>e. getStatesByIcao24_try now key cached up s = (Inl e, s)"
  by (auto simp: getStatesByIcao24_try_def split: upstream.splits)

lemma getStatesByIcao24_changes_nothing:
  "consecutiveFailures s = None \<Longrightarrow>
    getStatesByIcao24 now1 now2 now up icao24List s =
      (fallback (getCached now1 (responseCache s) (icao24_key icao24List)),
       \<not> is_fresh (getCached now1 (responseCache s) (icao24_key icao24List))
         \<and> \<not> now2 < backoffUntil s, s)"
  using getStatesByIcao24_try_without_binding
    [of s now "icao24_key icao24List" "getCached now1 (responseCache s) (icao24_key icao24List)" up]
  by (auto simp: getStatesByIcao24_def Let_def)

text \<open>No call creates the binding.\<close>

lemma getAllStates_binding_absent:
  "consecutiveFailures s = None \<Longrightarrow>
    consecutiveFailures (snd (snd (getAllStates now1 now2 now up s))) = None"
  by (auto simp: getAllStates_def getAllStates_issue_def getAllStates_settle_def
      getAllStates_try_def setCache_def Let_def
      split: upstream.splits body.splits option.splits sum.splits prod.splits)

text \<open>
  \<^verbatim>\<open>getAllStates\<close>: a call served from a fresh entry leaves the state as it is; a call
  that reaches the network and succeeds replaces the cache entry and leaves the deadline,
  which its own backoff test found passed, so that no later reading is before it.
\<close>

lemma getAllStates_cache_hit:
  "is_fresh (getCached now1 (responseCache s) ''all_states'') \<Longrightarrow>
    getAllStates now1 now2 now up s =
      (Some (fallback (getCached now1 (responseCache s) ''all_states'')), False, s)"
  by (simp add: getAllStates_def getAllStates_issue_def Let_def)

lemma getAllStates_success:
  assumes "\<not> is_fresh (getCached now1 (responseCache s) ''all_states'')"
    and "\<not> now2 < backoffUntil s" and "''all_states'' \<notin> inflightRequests s"
    and "response_ok status" and "parse_all states = Inr result"
  shows "getAllStates now1 now2 now (Response status (Body (Some states))) s =
           (Some result, True,
            s\<lparr>responseCache := (responseCache s)(''all_states'' \<mapsto> \<lparr>data = result, timestamp = now\<rparr>)\<rparr>)"
    and "now2 \<le> later \<Longrightarrow>
          \<not> later < backoffUntil
                (snd (snd (getAllStates now1 now2 now (Response status (Body (Some states))) s)))"
proof -
  have ne: "status \<noteq> 429"
    using assms(4) by (auto simp: response_ok_def)
  show g: "getAllStates now1 now2 now (Response status (Body (Some states))) s =
           (Some result, True,
            s\<lparr>responseCache := (responseCache s)(''all_states'' \<mapsto> \<lparr>data = result, timestamp = now\<rparr>)\<rparr>)"
    using assms ne
    by (simp add: getAllStates_def getAllStates_issue_def getAllStates_settle_def
        getAllStates_try_def setCache_def Let_def)
  show "\<not> later < backoffUntil
                (snd (snd (getAllStates now1 now2 now (Response status (Body (Some states))) s)))"
    if "now2 \<le> later"
    using that assms(2) by (simp add: g)
qed

text \<open>
  Claim C8. A fetch that reaches the network and succeeds writes the parsed response into
  the cache and clears the backoff state. \<^verbatim>\<open>getAllStates\<close> does the first and never
  needs the second, as the two lemmas above say. \<^verbatim>\<open>getStatesByIcao24\<close> does neither: on
  a 200 answer with one valid record, from the state of a freshly loaded module, the
  reset \<^verbatim>\<open>consecutiveFailures = 0\<close> throws before \<^verbatim>\<open>setCache\<close> is reached, the call
  resolves to the empty list and the cache stays empty, where \<^verbatim>\<open>getAllStates\<close> on the
  same answer caches the parsed record.
\<close>

theorem getStatesByIcao24_success_not_cached:
  "parse_all [sample_state] = Inr [positional sample_state (JStr ''DLH9KC'')]
   \<and> getStatesByIcao24 1000 1000 1100 (Response 200 (Body (Some [sample_state]))) [''3c6444'']
        module_loaded
       = ([], True, module_loaded)
   \<and> responseCache module_loaded (icao24_key [''3c6444'']) = None
   \<and> getAllStates 1000 1000 1100 (Response 200 (Body (Some [sample_state]))) module_loaded
       = (Some [positional sample_state (JStr ''DLH9KC'')], True,
          module_loaded\<lparr>responseCache :=
            [''all_states'' \<mapsto> \<lparr>data = [positional sample_state (JStr ''DLH9KC'')],
                                  timestamp = 1100\<rparr>]\<rparr>)"
proof -
  have a: "getStatesByIcao24 1000 1000 1100 (Response 200 (Body (Some [sample_state])))
        [''3c6444''] module_loaded = ([], True, module_loaded)"
    by (simp add: getStatesByIcao24_def getStatesByIcao24_try_def getCached_def module_loaded_def
        is_fresh_def fallback_def response_ok_def Let_def)
  have b: "getAllStates 1000 1000 1100 (Response 200 (Body (Some [sample_state]))) module_loaded
       = (Some [positional sample_state (JStr ''DLH9KC'')], True,
          module_loaded\<lparr>responseCache :=
            [''all_states'' \<mapsto> \<lparr>data = [positional sample_state (JStr ''DLH9KC'')],
                                  timestamp = 1100\<rparr>]\<rparr>)"
    using getAllStates_success(1) [of 1000 module_loaded 1000 200 "[sample_state]"
        "[positional sample_state (JStr ''DLH9KC'')]" 1100] parse_sample_state
    by (simp add: getCached_def module_loaded_def is_fresh_def response_ok_def)
  show ?thesis
    using a b parse_sample_state by (simp add: module_loaded_def)
qed

end
